theory Spec2Isabelle
  imports Complex_Main "HOL-Library.Sublist"
begin

section \<open>JavaScript strings and numbers used by the record mapper\<close>

text \<open>
  Strings are \<^typ>\<open>string\<close>; each \<^typ>\<open>char\<close> stands for one code unit in the
  range U+0000..U+00FF, which is where the functions below agree with the
  ECMAScript built-ins they stand for (\<open>trim\<close>, \<open>toLowerCase\<close>, \<open>includes\<close>,
  \<open>parseFloat\<close>).
\<close>

definition isWhiteSpace :: "char \<Rightarrow> bool" where
  \<comment> \<open>WhiteSpace and LineTerminator: TAB, LF, VT, FF, CR, SP, NBSP.\<close>
  "isWhiteSpace c = ((of_char c :: nat) \<in> {9, 10, 11, 12, 13, 32, 160})"

definition trimStart :: "string \<Rightarrow> string" where
  "trimStart s = dropWhile isWhiteSpace s"

definition trim :: "string \<Rightarrow> string" where
  "trim s = rev (dropWhile isWhiteSpace (rev (dropWhile isWhiteSpace s)))"

definition lowerChar :: "char \<Rightarrow> char" where
  "lowerChar c =
     (let n = (of_char c :: nat)
      in if (65 \<le> n \<and> n \<le> 90) \<or> (192 \<le> n \<and> n \<le> 214) \<or> (216 \<le> n \<and> n \<le> 222)
         then char_of (n + 32) else c)"

definition toLowerCase :: "string \<Rightarrow> string" where
  "toLowerCase s = map lowerChar s"

fun startsWith :: "string \<Rightarrow> string \<Rightarrow> bool" where
  "startsWith s [] = True"
| "startsWith [] (p # ps) = False"
| "startsWith (c # cs) (p # ps) = (c = p \<and> startsWith cs ps)"

fun includes_str :: "string \<Rightarrow> string \<Rightarrow> bool" where
  \<comment> \<open>\<open>hay.includes(needle)\<close>: the needle occurs at some position of the hay.\<close>
  "includes_str [] needle = (needle = [])"
| "includes_str (c # cs) needle = (startsWith (c # cs) needle \<or> includes_str cs needle)"

fun join :: "string \<Rightarrow> string list \<Rightarrow> string" where
  \<comment> \<open>\<open>parts.join(sep)\<close>\<close>
  "join sep [] = []"
| "join sep [p] = p"
| "join sep (p # q # ps) = p @ sep @ join sep (q # ps)"

definition digitChar :: "nat \<Rightarrow> char" where
  "digitChar d = char_of (48 + d)"

fun showNat :: "nat \<Rightarrow> string" where
  \<comment> \<open>The decimal text of a non-negative integer, as a template literal prints it.\<close>
  "showNat n = (if n < 10 then [digitChar n] else showNat (n div 10) @ [digitChar (n mod 10)])"

declare showNat.simps [simp del]

text \<open>
  A Number is NaN, one of the two infinities, or finite. \<open>Finite q\<close> stands for the
  binary64 value nearest to the rational \<open>q\<close>: the rounding of the fraction bits is not
  modelled, the overflow of the rounding to an infinity is (\<open>toNumber\<close>).
\<close>

datatype jsnum = NaN | PosInf | NegInf | Finite rat

definition isNaN :: "jsnum \<Rightarrow> bool" where
  "isNaN x = (x = NaN)"

definition isFinite :: "jsnum \<Rightarrow> bool" where
  "isFinite x = (case x of Finite q \<Rightarrow> True | _ \<Rightarrow> False)"

definition overflowThreshold :: rat where
  \<comment> \<open>Half-way between the largest binary64 value and \<open>2^1024\<close>; from here on the
      nearest value is an infinity.\<close>
  "overflowThreshold = 2 ^ 1024 - 2 ^ 970"

definition toNumber :: "bool \<Rightarrow> nat \<Rightarrow> int \<Rightarrow> jsnum" where
  \<comment> \<open>The Number for the decimal \<open>(-1)^neg * m * 10^e\<close>.\<close>
  "toNumber neg m e =
     (let q = (if 0 \<le> e then of_nat m * 10 ^ nat e else of_nat m / 10 ^ nat (- e))
      in if overflowThreshold \<le> q then (if neg then NegInf else PosInf)
         else Finite (if neg then - q else q))"

definition isDigit :: "char \<Rightarrow> bool" where
  "isDigit c = (48 \<le> (of_char c :: nat) \<and> (of_char c :: nat) \<le> 57)"

definition digitsValue :: "string \<Rightarrow> nat" where
  "digitsValue ds = foldl (\<lambda>a c. 10 * a + ((of_char c :: nat) - 48)) 0 ds"

definition exponentPart :: "string \<Rightarrow> int" where
  \<comment> \<open>The value of the ExponentPart at the head of the text, 0 when there is none:
      \<open>e\<close> or \<open>E\<close>, an optional sign, at least one digit.\<close>
  "exponentPart s =
     (case s of
        [] \<Rightarrow> 0
      | c # r \<Rightarrow>
          if c = CHR ''e'' \<or> c = CHR ''E'' then
            (case r of
               [] \<Rightarrow> 0
             | d # r' \<Rightarrow>
                 if d = CHR ''+'' then int (digitsValue (takeWhile isDigit r'))
                 else if d = CHR ''-'' then - int (digitsValue (takeWhile isDigit r'))
                 else int (digitsValue (takeWhile isDigit (d # r'))))
          else 0)"

definition strUnsignedDecimalLiteral :: "bool \<Rightarrow> string \<Rightarrow> jsnum" where
  \<comment> \<open>The longest prefix that is a StrUnsignedDecimalLiteral, as a Number with
      the sign given; NaN when no prefix is one.\<close>
  "strUnsignedDecimalLiteral neg s =
     (if startsWith s ''Infinity'' then (if neg then NegInf else PosInf)
      else
        let ip = takeWhile isDigit s; r1 = dropWhile isDigit s
        in case r1 of
             [] \<Rightarrow> if ip = [] then NaN else toNumber neg (digitsValue ip) 0
           | c # r2 \<Rightarrow>
               if c = CHR ''.'' then
                 (let fp = takeWhile isDigit r2; r3 = dropWhile isDigit r2
                  in if ip = [] \<and> fp = [] then NaN
                     else toNumber neg (digitsValue (ip @ fp)) (exponentPart r3 - int (length fp)))
               else if ip = [] then NaN
               else toNumber neg (digitsValue ip) (exponentPart r1))"

definition parseFloatText :: "string \<Rightarrow> jsnum" where
  "parseFloatText s =
     (case trimStart s of
        [] \<Rightarrow> NaN
      | c # r \<Rightarrow>
          if c = CHR ''+'' then strUnsignedDecimalLiteral False r
          else if c = CHR ''-'' then strUnsignedDecimalLiteral True r
          else strUnsignedDecimalLiteral False (c # r))"

definition parseFloat :: "string option \<Rightarrow> jsnum" where
  \<comment> \<open>\<open>parseFloat(v)\<close> for a cell that is a string or \<open>undefined\<close> (\<open>None\<close>): the
      argument is converted to a string first.\<close>
  "parseFloat v = parseFloatText (case v of None \<Rightarrow> ''undefined'' | Some s \<Rightarrow> s)"


section \<open>Record model (types.ts) and column names (constants.ts)\<close>

datatype SchoolStatus = Defined | Pending | NoService

fun statusText :: "SchoolStatus \<Rightarrow> string" where
  \<comment> \<open>The string value of each enumeration member.\<close>
  "statusText Defined = ''Defined''"
| "statusText Pending = ''Pending''"
| "statusText NoService = ''No Service''"

text \<open>
  The identifier is the template literal \<open>${lat}-${lng}-${index}\<close>. It is kept as the
  triple of the interpolated values, since the decimal text of a binary64 value is not
  modelled; the identifier is only ever compared for equality.
\<close>

type_synonym school_id = "jsnum \<times> jsnum \<times> nat"

record School =
  school_id :: school_id
  name :: string
  address :: string
  latitude :: jsnum
  longitude :: jsnum
  status :: SchoolStatus
  administrativeDesignation :: string
  district :: string

definition CSV_NAME :: string where "CSV_NAME = ''School Name''"
definition CSV_ADDRESS :: string where "CSV_ADDRESS = ''Street Address''"
definition CSV_CITY :: string where "CSV_CITY = ''City''"
definition CSV_STATE :: string where "CSV_STATE = ''State''"
definition CSV_ZIP_CODE :: string where "CSV_ZIP_CODE = ''Zip Code''"
definition CSV_LATITUDE :: string where "CSV_LATITUDE = ''Latitude''"
definition CSV_LONGITUDE :: string where "CSV_LONGITUDE = ''Longitude''"
definition CSV_STATUS :: string where "CSV_STATUS = ''Status''"
definition CSV_ADMINISTRATIVE_DESIGNATION :: string where
  "CSV_ADMINISTRATIVE_DESIGNATION = ''Administrative Designation''"
definition CSV_DISTRICT :: string where "CSV_DISTRICT = ''District''"

section \<open>Record mapper (fetchSchoolData)\<close>

text \<open>
  A raw row is what the tabular parser delivers with \<open>header: true\<close>: an object from
  column names to strings, a column the line has no field for being \<open>undefined\<close>.
\<close>

type_synonym row = "string \<Rightarrow> string option"

definition orElse :: "string option \<Rightarrow> string \<Rightarrow> string" where
  \<comment> \<open>\<open>v || d\<close> for a string or \<open>undefined\<close>: the empty string is falsy too.\<close>
  "orElse v d = (case v of None \<Rightarrow> d | Some s \<Rightarrow> if s = [] then d else s)"

definition fullAddress :: "string \<Rightarrow> string \<Rightarrow> string \<Rightarrow> string \<Rightarrow> string" where
  \<comment> \<open>\<open>[street, city, state].filter(Boolean).join(', ') + (zip ? ` ${zip}` : '')\<close>\<close>
  "fullAddress street city state zipCode =
     join '', '' (filter (\<lambda>p. p \<noteq> []) [street, city, state])
       @ (if zipCode \<noteq> [] then '' '' @ zipCode else [])"

text \<open>
  The callback of \<open>map\<close> either warns on the console and returns \<open>null\<close>
  (\<open>Skipped\<close>, with the text of the warning) or returns a School (\<open>Mapped\<close>).
\<close>

datatype row_result = Skipped string | Mapped School

definition mapRow :: "row \<Rightarrow> nat \<Rightarrow> row_result" where
  "mapRow r index =
     (let lat = parseFloat (r CSV_LATITUDE);
          lng = parseFloat (r CSV_LONGITUDE)
      in if isNaN lat \<or> isNaN lng then
           Skipped (''Skipping row '' @ showNat (index + 2) @ '' due to invalid latitude/longitude.'')
         else
           let sheetStatus = trim (orElse (r CSV_STATUS) []);
               unrecognized = Skipped (''Skipping row '' @ showNat (index + 2)
                 @ '' due to unrecognized status: '' @ [CHR 0x22] @ sheetStatus @ [CHR 0x22]);
               street = orElse (r CSV_ADDRESS) [];
               city = orElse (r CSV_CITY) [];
               state = orElse (r CSV_STATE) [];
               zipCode = orElse (r CSV_ZIP_CODE) [];
               school = (\<lambda>st. Mapped \<lparr>
                 school_id = (lat, lng, index),
                 name = orElse (r CSV_NAME) ''Unnamed School'',
                 address = (let a = fullAddress street city state zipCode
                            in if a = [] then ''No Address Provided'' else a),
                 latitude = lat,
                 longitude = lng,
                 status = st,
                 administrativeDesignation = orElse (r CSV_ADMINISTRATIVE_DESIGNATION) ''N/A'',
                 district = orElse (r CSV_DISTRICT) ''N/A'' \<rparr>)
           in if sheetStatus = ''Defined'' then school Defined
              else if sheetStatus = ''Pending'' then school Pending
              else if sheetStatus = ''No Service'' then school NoService
              else unrecognized)"

fun mapRows :: "row list \<Rightarrow> nat \<Rightarrow> row_result list" where
  \<comment> \<open>\<open>results.data.map((row, index) => ...)\<close>, from the index given.\<close>
  "mapRows [] index = []"
| "mapRows (r # rs) index = mapRow r index # mapRows rs (index + 1)"

fun keepSchools :: "row_result list \<Rightarrow> School list" where
  \<comment> \<open>\<open>.filter(item => item !== null)\<close>\<close>
  "keepSchools [] = []"
| "keepSchools (Skipped w # xs) = keepSchools xs"
| "keepSchools (Mapped s # xs) = s # keepSchools xs"

fun consoleWarnings :: "row_result list \<Rightarrow> string list" where
  \<comment> \<open>The calls of \<open>console.warn\<close>, in order.\<close>
  "consoleWarnings [] = []"
| "consoleWarnings (Skipped w # xs) = w # consoleWarnings xs"
| "consoleWarnings (Mapped s # xs) = consoleWarnings xs"

text \<open>
  The tabular parser either calls \<open>error\<close> with a message or \<open>complete\<close> with the
  rows. The result of \<open>fetchSchoolData\<close> is the console output together with how the
  promise settles: rejected with a message (\<open>Inl\<close>) or resolved with the Schools.
  With string cells the body of \<open>complete\<close> throws nowhere, so its \<open>catch\<close> has no
  branch here.
\<close>

datatype papa_result = PapaError string | PapaComplete "row list"

definition parsedData :: "row list \<Rightarrow> School list" where
  "parsedData rows = keepSchools (mapRows rows 0)"

definition fetchSchoolData :: "papa_result \<Rightarrow> string list \<times> (string + School list)" where
  "fetchSchoolData p =
     (case p of
        PapaComplete rows \<Rightarrow> (consoleWarnings (mapRows rows 0), Inr (parsedData rows))
      | PapaError msg \<Rightarrow>
          ([], Inl (''Could not fetch or parse CSV file from URL. '' @ msg)))"

text \<open>Names for the two tests a row has to pass, and for the row a School came from.\<close>

definition coordinatesRejected :: "row \<Rightarrow> bool" where
  "coordinatesRejected r =
     (isNaN (parseFloat (r CSV_LATITUDE)) \<or> isNaN (parseFloat (r CSV_LONGITUDE)))"

definition statusRejected :: "row \<Rightarrow> bool" where
  "statusRejected r =
     (trim (orElse (r CSV_STATUS) []) \<notin> {''Defined'', ''Pending'', ''No Service''})"

definition beginsWithNumber :: "string \<Rightarrow> bool" where
  \<comment> \<open>After leading white space and one optional sign the text goes on with
      \<open>Infinity\<close>, a digit, or a point and a digit.\<close>
  "beginsWithNumber s =
     (let t = trimStart s;
          u = (case t of [] \<Rightarrow> [] | c # r \<Rightarrow> if c = CHR ''+'' \<or> c = CHR ''-'' then r else t)
      in startsWith u ''Infinity'' \<or>
         (case u of
            [] \<Rightarrow> False
          | c # r \<Rightarrow> isDigit c \<or> (c = CHR ''.'' \<and> (case r of [] \<Rightarrow> False | d # r' \<Rightarrow> isDigit d))))"

definition noLeadingNumber :: "string option \<Rightarrow> bool" where
  \<comment> \<open>The cell is missing or does not begin with a number.\<close>
  "noLeadingNumber v = (case v of None \<Rightarrow> True | Some s \<Rightarrow> \<not> beginsWithNumber s)"

definition rowIndex :: "School \<Rightarrow> nat" where
  "rowIndex s = snd (snd (school_id s))"

definition coordinatesWarning :: "nat \<Rightarrow> string" where
  "coordinatesWarning index =
     ''Skipping row '' @ showNat (index + 2) @ '' due to invalid latitude/longitude.''"

text \<open>
  The address as the specification words it, for comparison with \<open>fullAddress\<close>: the
  parts in order, an empty part contributing nothing, a comma and a space between two
  parts that are there.
\<close>

fun spec_joined_parts :: "string list \<Rightarrow> string" where
  "spec_joined_parts [] = []"
| "spec_joined_parts (p # ps) =
     (if p = [] then spec_joined_parts ps
      else if spec_joined_parts ps = [] then p
      else p @ '', '' @ spec_joined_parts ps)"

definition spec_address :: "string \<Rightarrow> string \<Rightarrow> string \<Rightarrow> string \<Rightarrow> string" where
  "spec_address street city state zipCode =
     spec_joined_parts [street, city, state] @ (if zipCode = [] then [] else '' '' @ zipCode)"


section \<open>Application controller (App.tsx)\<close>

subsection \<open>Waiting for a global library\<close>

text \<open>
  Time is counted in ticks of the polling interval (100 ms). \<open>w name t\<close> says whether
  \<open>window[name]\<close> is defined at tick \<open>t\<close>. The interval started at tick \<open>t0\<close> fires
  at \<open>t0 + 1\<close>, \<open>t0 + 2\<close>, ...; the result is the tick at which the promise settles
  and how: rejected with a message (\<open>Inl\<close>) or resolved.
\<close>

type_synonym window = "string \<Rightarrow> nat \<Rightarrow> bool"

definition checkIntervalMs :: nat where
  "checkIntervalMs = 100"

definition maxAttempts :: nat where
  "maxAttempts = 50"

definition libraryTimeout :: "string \<Rightarrow> string" where
  "libraryTimeout libName =
     ''The '' @ [CHR 0x27] @ libName @ [CHR 0x27]
       @ '' library failed to load from the CDN, please check your network connection.''"

function poll :: "string \<Rightarrow> window \<Rightarrow> nat \<Rightarrow> nat \<Rightarrow> nat \<times> (string + unit)" where
  \<comment> \<open>One firing of the interval at tick \<open>t\<close>, with \<open>attempts\<close> as it stands.\<close>
  "poll libName w attempts t =
     (if w libName t then (t, Inr ())
      else if attempts + 1 > maxAttempts then (t, Inl (libraryTimeout libName))
      else poll libName w (attempts + 1) (t + 1))"
  by pat_completeness auto
termination
  by (relation "measure (\<lambda>(libName, w, attempts, t). maxAttempts + 1 - attempts)") auto

declare poll.simps [simp del]

definition waitForLibrary :: "string \<Rightarrow> window \<Rightarrow> nat \<Rightarrow> nat \<times> (string + unit)" where
  "waitForLibrary libName w t0 = poll libName w 0 (t0 + 1)"

text \<open>
  A window given by a schedule: each library listed is defined from its tick on, and
  no other library ever is.
\<close>

definition appearsFrom :: "(string \<times> nat) list \<Rightarrow> window" where
  "appearsFrom schedule libName t =
     (case map_of schedule libName of None \<Rightarrow> False | Some k \<Rightarrow> k \<le> t)"

subsection \<open>State and load cycle\<close>

datatype hint = MapKeyHint | ParserHint | DataSourceHint

record AppError =
  message :: string
  details :: hint

text \<open>
  The state of the component: its six state variables, and the texts it has passed to
  \<open>alert\<close> so far.
\<close>

record AppState =
  schools :: "School list"
  isLoading :: bool
  error :: "AppError option"
  searchTerm :: string
  selectedSchool :: "School option"
  lastUpdated :: "nat option"
  alerts :: "string list"

definition initialState :: AppState where
  "initialState = \<lparr> schools = [], isLoading = True, error = None, searchTerm = [],
     selectedSchool = None, lastUpdated = None, alerts = [] \<rparr>"

text \<open>
  What the load awaits does not read the component's state. The environment says when
  the two globals appear, whether \<open>google.maps\<close> is defined at a tick, what the tabular
  parser delivers and after how many ticks.
\<close>

record Env =
  libraries :: window
  googleMaps :: "nat \<Rightarrow> bool"
  papa :: papa_result
  fetchTicks :: nat

definition awaited :: "Env \<Rightarrow> nat \<Rightarrow> nat \<times> string list \<times> (string + School list)" where
  \<comment> \<open>The body of \<open>try\<close> up to the result of \<open>fetchSchoolData\<close>: the tick it ends at, the
      console output, and the error thrown or the data.\<close>
  "awaited env t0 =
     (case waitForLibrary ''google'' (libraries env) t0 of
        (t1, Inl msg) \<Rightarrow> (t1, [], Inl msg)
      | (t1, Inr u) \<Rightarrow>
          if \<not> googleMaps env t1 then
            (t1, [], Inl ''Google Maps API script loaded, but maps object is not available.'')
          else
            (case waitForLibrary ''Papa'' (libraries env) t1 of
               (t2, Inl msg) \<Rightarrow> (t2, [], Inl msg)
             | (t2, Inr u) \<Rightarrow>
                 (t2 + fetchTicks env, fst (fetchSchoolData (papa env)),
                  snd (fetchSchoolData (papa env)))))"

definition errorDetails :: "string \<Rightarrow> hint" where
  "errorDetails errorMessage =
     (if includes_str errorMessage ''google'' \<or> includes_str errorMessage ''Google'' then MapKeyHint
      else if includes_str errorMessage ''Papa'' then ParserHint
      else DataSourceHint)"

definition loadBegin :: "AppState \<Rightarrow> AppState" where
  \<comment> \<open>\<open>setIsLoading(true); setError(null)\<close>\<close>
  "loadBegin st = st\<lparr> isLoading := True, error := None \<rparr>"

definition loadSettle :: "nat \<Rightarrow> (string + School list) \<Rightarrow> AppState \<Rightarrow> AppState" where
  \<comment> \<open>The rest of \<open>try\<close>, or \<open>catch\<close>, and then \<open>finally\<close>, at tick \<open>now\<close>.\<close>
  "loadSettle now res st =
     (case res of
        Inr data \<Rightarrow> st\<lparr> schools := data, lastUpdated := Some now \<rparr>
      | Inl errorMessage \<Rightarrow>
          st\<lparr> error := Some \<lparr> message = errorMessage, details = errorDetails errorMessage \<rparr>,
              lastUpdated := None \<rparr>)
     \<lparr> isLoading := False \<rparr>"

definition loadData :: "Env \<Rightarrow> nat \<Rightarrow> AppState \<Rightarrow> nat \<times> string list \<times> AppState" where
  \<comment> \<open>One load cycle on its own, begun at tick \<open>t0\<close>.\<close>
  "loadData env t0 st =
     (case awaited env t0 of (t, warnings, res) \<Rightarrow> (t, warnings, loadSettle t res (loadBegin st)))"

subsection \<open>Search, selection and what is rendered\<close>

definition handleSearch :: "AppState \<Rightarrow> AppState" where
  "handleSearch st =
     (if trim (searchTerm st) = [] then st\<lparr> selectedSchool := None \<rparr>
      else
        let lowerCaseSearchTerm = toLowerCase (searchTerm st)
        in case find (\<lambda>school. includes_str (toLowerCase (name school)) lowerCaseSearchTerm)
                  (schools st) of
             Some foundSchool \<Rightarrow> st\<lparr> selectedSchool := Some foundSchool \<rparr>
           | None \<Rightarrow>
               st\<lparr> alerts := alerts st @ [''No school found matching '' @ [CHR 0x22]
                                  @ searchTerm st @ [CHR 0x22] @ ''.''],
                   selectedSchool := None \<rparr>)"

definition handleSchoolSelect :: "School option \<Rightarrow> AppState \<Rightarrow> AppState" where
  "handleSchoolSelect school st = st\<lparr> selectedSchool := school \<rparr>"

datatype content = LoadingSpinner | ErrorDisplay string hint | MapComponent "School list" "School option"

definition renderContent :: "AppState \<Rightarrow> content" where
  "renderContent st =
     (if isLoading st \<and> length (schools st) = 0 then LoadingSpinner
      else case error st of
             Some e \<Rightarrow> ErrorDisplay (message e) (details e)
           | None \<Rightarrow> MapComponent (schools st) (selectedSchool st))"

definition controlsRendered :: "AppState \<Rightarrow> bool" where
  \<comment> \<open>The search form and the refresh button are rendered under \<open>!isLoading && !error\<close>.\<close>
  "controlsRendered st = (\<not> isLoading st \<and> error st = None)"

text \<open>
  The page as driven by its events. \<open>pending\<close> counts the calls of \<open>loadData\<close> that have
  begun and not settled; the code keeps no such count, it is here to state what the
  events allow. The load of the mount effect begins at once; the refresh button, the
  search box and the form exist only while \<open>controlsRendered\<close>; a pending load settles
  with any result at any tick; a click on a marker selects a School of the collection.
\<close>

record Session =
  app :: AppState
  pending :: nat

inductive reachable :: "Session \<Rightarrow> bool" where
  mount: "reachable \<lparr> app = loadBegin initialState, pending = 1 \<rparr>"
| refresh: "reachable s \<Longrightarrow> controlsRendered (app s) \<Longrightarrow>
     reachable \<lparr> app = loadBegin (app s), pending = pending s + 1 \<rparr>"
| settle: "reachable s \<Longrightarrow> 0 < pending s \<Longrightarrow>
     reachable \<lparr> app = loadSettle now res (app s), pending = pending s - 1 \<rparr>"
| typing: "reachable s \<Longrightarrow> controlsRendered (app s) \<Longrightarrow>
     reachable (s\<lparr> app := (app s)\<lparr> searchTerm := txt \<rparr> \<rparr>)"
| search: "reachable s \<Longrightarrow> controlsRendered (app s) \<Longrightarrow>
     reachable (s\<lparr> app := handleSearch (app s) \<rparr>)"
| select: "reachable s \<Longrightarrow> school \<in> set (schools (app s)) \<Longrightarrow>
     reachable (s\<lparr> app := handleSchoolSelect (Some school) (app s) \<rparr>)"


text \<open>
  Calls of \<open>loadData\<close> that overlap. An event is the beginning of a call or its
  settling at a tick with a result; each carries the ordinal of the call it belongs to.
  The code keeps no such ordinal and its steps do not look at it.
\<close>

datatype load_event = Begin nat | Settle nat nat "string + School list"

fun runLoads :: "load_event list \<Rightarrow> AppState \<Rightarrow> AppState" where
  "runLoads [] st = st"
| "runLoads (Begin k # evs) st = runLoads evs (loadBegin st)"
| "runLoads (Settle k now res # evs) st = runLoads evs (loadSettle now res st)"

section \<open>Map adapter (MapComponent.tsx)\<close>

definition MAP_CENTER :: "jsnum \<times> jsnum" where
  "MAP_CENTER = (Finite (407128 / 10000), Finite (- (740060 / 10000)))"

definition MAP_ZOOM :: nat where
  "MAP_ZOOM = 11"

fun MARKER_ICONS :: "SchoolStatus \<Rightarrow> string" where
  "MARKER_ICONS Defined = ''http://maps.google.com/mapfiles/ms/icons/green-dot.png''"
| "MARKER_ICONS Pending = ''http://maps.google.com/mapfiles/ms/icons/yellow-dot.png''"
| "MARKER_ICONS NoService = ''http://maps.google.com/mapfiles/ms/icons/red-dot.png''"

text \<open>
  The content of the info window is a fixed HTML template; it is kept as the values
  interpolated into it, the coordinates of the directions link among them.
\<close>

record InfoContent =
  heading :: string
  designationLine :: "string \<times> string"
  addressLine :: string
  statusLine :: string
  directionsDestination :: "jsnum \<times> jsnum"

definition contentString :: "School \<Rightarrow> InfoContent" where
  "contentString school = \<lparr> heading = name school,
     designationLine = (administrativeDesignation school, district school),
     addressLine = address school,
     statusLine = statusText (status school),
     directionsDestination = (latitude school, longitude school) \<rparr>"

text \<open>
  A marker object: \<open>ref\<close> is its identity, \<open>content\<close> and \<open>entity\<close> are what its two
  listeners have closed over.
\<close>

record Marker =
  ref :: nat
  position :: "jsnum \<times> jsnum"
  title :: string
  icon :: string
  content :: InfoContent
  entity :: School

text \<open>
  The state of the component and of the widget it drives: whether the map has been
  constructed, its centre and zoom, the markers whose map it is, the registry
  \<open>markersRef\<close> (a Map, in insertion order), the content and anchor of the one info
  window once it has been opened, and the next object identity.
\<close>

record MapState =
  mapCreated :: bool
  center :: "jsnum \<times> jsnum"
  zoom :: nat
  onMap :: "Marker list"
  markersRef :: "(school_id \<times> Marker) list"
  infoWindow :: "(InfoContent \<times> nat) option"
  nextRef :: nat

definition unmounted :: MapState where
  "unmounted = \<lparr> mapCreated = False, center = MAP_CENTER, zoom = MAP_ZOOM, onMap = [],
     markersRef = [], infoWindow = None, nextRef = 0 \<rparr>"

definition createMap :: "MapState \<Rightarrow> MapState" where
  \<comment> \<open>The first effect: construct the map once.\<close>
  "createMap m =
     (if \<not> mapCreated m
      then m\<lparr> mapCreated := True, center := MAP_CENTER, zoom := MAP_ZOOM, infoWindow := None \<rparr>
      else m)"

fun mapSet :: "'k \<Rightarrow> 'v \<Rightarrow> ('k \<times> 'v) list \<Rightarrow> ('k \<times> 'v) list" where
  \<comment> \<open>\<open>Map.prototype.set\<close>: a key already present keeps its place.\<close>
  "mapSet k v [] = [(k, v)]"
| "mapSet k v (p # ps) = (if fst p = k then (k, v) # ps else p # mapSet k v ps)"

definition newMarker :: "nat \<Rightarrow> School \<Rightarrow> Marker" where
  "newMarker r school = \<lparr> ref = r, position = (latitude school, longitude school),
     title = name school, icon = MARKER_ICONS (status school),
     content = contentString school, entity = school \<rparr>"

definition placeMarker :: "MapState \<Rightarrow> School \<Rightarrow> MapState" where
  \<comment> \<open>The body of \<open>schools.forEach\<close>.\<close>
  "placeMarker m school =
     (let marker = newMarker (nextRef m) school
      in m\<lparr> onMap := onMap m @ [marker],
            markersRef := mapSet (school_id school) marker (markersRef m),
            nextRef := nextRef m + 1 \<rparr>)"

definition clearMarkers :: "MapState \<Rightarrow> MapState" where
  \<comment> \<open>\<open>setMap(null)\<close> on every marker of the registry, then \<open>clear()\<close>.\<close>
  "clearMarkers m =
     m\<lparr> onMap := filter (\<lambda>marker. ref marker \<notin> set (map (\<lambda>p. ref (snd p)) (markersRef m))) (onMap m),
        markersRef := [] \<rparr>"

definition markersEffect :: "School list \<Rightarrow> MapState \<Rightarrow> MapState" where
  \<comment> \<open>The second effect, run when the collection changes.\<close>
  "markersEffect schoolList m =
     (if mapCreated m \<and> length schoolList > 0
      then foldl placeMarker (clearMarkers m) schoolList
      else m)"

definition hoverMarker :: "Marker \<Rightarrow> MapState \<Rightarrow> MapState" where
  "hoverMarker marker m = m\<lparr> infoWindow := Some (content marker, ref marker) \<rparr>"









text \<open>
  What the second effect relies on from one run to the next: every marker on the map
  is in the registry, and its identity is older than the next one to be given out.
\<close>

definition markersRegistered :: "MapState \<Rightarrow> bool" where
  "markersRegistered m =
     (\<forall>marker \<in> set (onMap m).
        ref marker \<in> set (map (\<lambda>p. ref (snd p)) (markersRef m)) \<and> ref marker < nextRef m)"

section \<open>Properties of the record mapper\<close>

subsection \<open>Evaluation rules and auxiliary facts\<close>

lemmas csv_defs = CSV_NAME_def CSV_ADDRESS_def CSV_CITY_def CSV_STATE_def CSV_ZIP_CODE_def
  CSV_LATITUDE_def CSV_LONGITUDE_def CSV_STATUS_def CSV_ADMINISTRATIVE_DESIGNATION_def
  CSV_DISTRICT_def

lemmas number_defs = parseFloat_def parseFloatText_def trimStart_def isWhiteSpace_def
  strUnsignedDecimalLiteral_def isDigit_def toNumber_def digitsValue_def exponentPart_def
  overflowThreshold_def isNaN_def

lemmas mapper_defs = parsedData_def mapRow_def orElse_def trim_def fullAddress_def Let_def
  coordinatesRejected_def statusRejected_def rowIndex_def

lemma join_nonempty: "ps \<noteq> [] \<Longrightarrow> \<forall>p \<in> set ps. p \<noteq> [] \<Longrightarrow> join sep ps \<noteq> []"
  by (induction sep ps rule: join.induct) auto

lemma join_filter_spec: "join '', '' (filter (\<lambda>p. p \<noteq> []) ps) = spec_joined_parts ps"
proof (induction ps)
  case Nil
  show ?case by simp
next
  case (Cons p ps)
  let ?rest = "filter (\<lambda>p. p \<noteq> []) ps"
  show ?case
  proof (cases "p = []")
    case True
    with Cons show ?thesis by simp
  next
    case False
    show ?thesis
    proof (cases ?rest)
      case Nil
      with Cons.IH False show ?thesis by simp
    next
      case rest: (Cons q qs)
      have "\<forall>x \<in> set ?rest. x \<noteq> []" by simp
      then have "join '', '' ?rest \<noteq> []"
        using join_nonempty[of ?rest "'', ''"] rest by simp
      then have "spec_joined_parts ps \<noteq> []" using Cons.IH by simp
      moreover have "join '', '' (p # ?rest) = p @ '', '' @ join '', '' ?rest"
        using rest by simp
      ultimately show ?thesis using False Cons.IH by simp
    qed
  qed
qed

lemma fullAddress_spec: "fullAddress street city state z = spec_address street city state z"
  by (simp only: fullAddress_def spec_address_def join_filter_spec) simp

lemma fullAddress_empty_iff:
  "fullAddress street city state z = [] \<longleftrightarrow> street = [] \<and> city = [] \<and> state = [] \<and> z = []"
  by (auto simp: fullAddress_def)

lemma mapRow_Mapped:
  assumes "mapRow r i = Mapped s"
  shows "\<not> coordinatesRejected r" and "\<not> statusRejected r"
    and "latitude s = parseFloat (r CSV_LATITUDE)"
    and "longitude s = parseFloat (r CSV_LONGITUDE)"
    and "statusText (status s) = trim (orElse (r CSV_STATUS) [])"
    and "rowIndex s = i"
    and "name s = orElse (r CSV_NAME) ''Unnamed School''"
    and "address s = (let a = fullAddress (orElse (r CSV_ADDRESS) []) (orElse (r CSV_CITY) [])
                        (orElse (r CSV_STATE) []) (orElse (r CSV_ZIP_CODE) [])
                      in if a = [] then ''No Address Provided'' else a)"
  using assms
  by (auto simp: mapRow_def Let_def coordinatesRejected_def statusRejected_def rowIndex_def
      split: if_splits)

lemma mapRow_Skipped_iff:
  "(\<exists>w. mapRow r i = Skipped w) \<longleftrightarrow> coordinatesRejected r \<or> statusRejected r"
  by (auto simp: mapRow_def Let_def coordinatesRejected_def statusRejected_def)

lemma mapRow_coordinates:
  "coordinatesRejected r \<Longrightarrow> mapRow r i = Skipped (coordinatesWarning i)"
  by (simp add: mapRow_def Let_def coordinatesRejected_def coordinatesWarning_def)


lemma mapRows_nth:
  "mapRows rows k = map (\<lambda>j. mapRow (rows ! j) (k + j)) [0..<length rows]"
proof (induction rows arbitrary: k)
  case Nil
  show ?case by simp
next
  case (Cons r rs)
  have "map (\<lambda>j. mapRow ((r # rs) ! j) (k + j)) [0..<length (r # rs)]
      = mapRow r k # map (\<lambda>j. mapRow (rs ! j) (Suc k + j)) [0..<length rs]"
    by (simp add: map_upt_Suc del: upt_Suc)
  with Cons.IH[of "Suc k"] show ?case by simp
qed

lemma set_keepSchools: "set (keepSchools xs) = {s. Mapped s \<in> set xs}"
  by (induction xs rule: keepSchools.induct) auto

lemma set_consoleWarnings: "set (consoleWarnings xs) = {w. Skipped w \<in> set xs}"
  by (induction xs rule: consoleWarnings.induct) auto

lemma length_keepSchools:
  "length (keepSchools xs) + length (consoleWarnings xs) = length xs"
  by (induction xs rule: keepSchools.induct) auto

lemma length_consoleWarnings_mapRows:
  "length (consoleWarnings (mapRows rows k))
     = length (filter (\<lambda>r. coordinatesRejected r \<or> statusRejected r) rows)"
proof (induction rows arbitrary: k)
  case Nil
  show ?case by simp
next
  case (Cons r rs)
  show ?case
  proof (cases "mapRow r k")
    case (Skipped w)
    then have "coordinatesRejected r \<or> statusRejected r"
      using mapRow_Skipped_iff[of r k] by blast
    with Skipped Cons.IH[of "k + 1"] show ?thesis by simp
  next
    case (Mapped s)
    then have "\<not> (coordinatesRejected r \<or> statusRejected r)"
      using mapRow_Skipped_iff[of r k] by auto
    with Mapped Cons.IH[of "k + 1"] show ?thesis by simp
  qed
qed

lemma parsedData_origin:
  "s \<in> set (parsedData rows) \<longleftrightarrow> (\<exists>i < length rows. mapRow (rows ! i) i = Mapped s)"
  by (auto simp: parsedData_def set_keepSchools mapRows_nth image_iff) force

lemma warnings_origin:
  "w \<in> set (consoleWarnings (mapRows rows 0))
     \<longleftrightarrow> (\<exists>i < length rows. mapRow (rows ! i) i = Skipped w)"
  by (auto simp: set_consoleWarnings mapRows_nth image_iff) force

lemma rejected_not_in_parsedData:
  assumes "i < length rows" and "coordinatesRejected (rows ! i) \<or> statusRejected (rows ! i)"
  shows "i \<notin> rowIndex ` set (parsedData rows)"
proof
  assume "i \<in> rowIndex ` set (parsedData rows)"
  then obtain s where s: "s \<in> set (parsedData rows)" and i: "rowIndex s = i" by auto
  from s obtain j where j: "j < length rows" "mapRow (rows ! j) j = Mapped s"
    using parsedData_origin by blast
  have "rowIndex s = j" by (rule mapRow_Mapped(6)[OF j(2)])
  with i j have "mapRow (rows ! i) i = Mapped s" by simp
  moreover obtain w where "mapRow (rows ! i) i = Skipped w"
    using assms(2) mapRow_Skipped_iff[of "rows ! i" i] by blast
  ultimately show False by simp
qed

lemma toNumber_not_NaN: "toNumber neg m e \<noteq> NaN"
  by (simp add: toNumber_def Let_def)

lemma strUnsignedDecimalLiteral_NaN:
  "strUnsignedDecimalLiteral neg u = NaN \<longleftrightarrow>
     \<not> (startsWith u ''Infinity'' \<or>
        (case u of [] \<Rightarrow> False
         | c # r \<Rightarrow> isDigit c \<or> (c = CHR ''.'' \<and> (case r of [] \<Rightarrow> False | d # r' \<Rightarrow> isDigit d))))"
proof (cases u)
  case Nil
  then show ?thesis by (simp add: strUnsignedDecimalLiteral_def)
next
  case (Cons c r)
  show ?thesis
  proof (cases "isDigit c")
    case True
    then have "takeWhile isDigit u \<noteq> []" using Cons by simp
    then show ?thesis using Cons True
      by (auto simp: strUnsignedDecimalLiteral_def Let_def toNumber_not_NaN split: list.splits)
  next
    case False
    then have ip: "takeWhile isDigit u = []" and r1: "dropWhile isDigit u = c # r"
      using Cons by simp_all
    show ?thesis
    proof (cases "startsWith u ''Infinity''")
      case True
      then show ?thesis by (simp add: strUnsignedDecimalLiteral_def)
    next
      case notInf: False
      show ?thesis
      proof (cases r)
        case Nil
        with notInf ip r1 Cons False show ?thesis
          by (simp add: strUnsignedDecimalLiteral_def Let_def)
      next
        case (Cons d r')
        with notInf ip r1 \<open>u = c # r\<close> False show ?thesis
          by (simp add: strUnsignedDecimalLiteral_def Let_def toNumber_not_NaN)
      qed
    qed
  qed
qed

lemma isNaN_parseFloat: "isNaN (parseFloat v) \<longleftrightarrow> noLeadingNumber v"
proof -
  have body: "parseFloatText s = NaN \<longleftrightarrow> \<not> beginsWithNumber s" for s
    by (cases "trimStart s")
      (simp_all add: parseFloatText_def beginsWithNumber_def strUnsignedDecimalLiteral_NaN)
  have undef: "\<not> beginsWithNumber ''undefined''"
    by (simp add: beginsWithNumber_def trimStart_def isWhiteSpace_def isDigit_def)
  show ?thesis
    by (cases v) (simp_all add: isNaN_def parseFloat_def noLeadingNumber_def body undef)
qed



lemma kept_indices:
  "map rowIndex (keepSchools (map (\<lambda>j. mapRow (rows ! j) j) js))
     = filter (\<lambda>j. \<not> (coordinatesRejected (rows ! j) \<or> statusRejected (rows ! j))) js"
proof (induction js)
  case Nil
  show ?case by simp
next
  case (Cons j js)
  show ?case
  proof (cases "mapRow (rows ! j) j")
    case (Skipped w)
    then have "coordinatesRejected (rows ! j) \<or> statusRejected (rows ! j)"
      using mapRow_Skipped_iff[of "rows ! j" j] by blast
    with Skipped Cons.IH show ?thesis by simp
  next
    case (Mapped s)
    then have "\<not> (coordinatesRejected (rows ! j) \<or> statusRejected (rows ! j))"
      using mapRow_Skipped_iff[of "rows ! j" j] by auto
    moreover have "rowIndex s = j" by (rule mapRow_Mapped(6)[OF Mapped])
    ultimately show ?thesis using Mapped Cons.IH by simp
  qed
qed

lemma coordinatesRejected_iff:
  "coordinatesRejected r
     \<longleftrightarrow> noLeadingNumber (r CSV_LATITUDE) \<or> noLeadingNumber (r CSV_LONGITUDE)"
  by (simp add: coordinatesRejected_def isNaN_parseFloat)

subsection \<open>What enters the collection\<close>

text \<open>
  C1, as amended. For every list of rows the parser delivers, the promise resolves with
  \<open>parsedData rows\<close>, and every School in it has a latitude and a longitude that are
  not NaN (they may be infinite) and a status of the enumeration, the one whose text is
  the trimmed Status cell of its row. A row whose latitude or longitude parses to NaN,
  or whose trimmed status is none of the three texts, is the origin of no School of the
  result.
\<close>

theorem mapped_schools_bear_numbers_and_status:
  "snd (fetchSchoolData (PapaComplete rows)) = Inr (parsedData rows) \<and>
   (\<forall>s \<in> set (parsedData rows).
      \<not> isNaN (latitude s) \<and> \<not> isNaN (longitude s) \<and>
      rowIndex s < length rows \<and>
      statusText (status s) = trim (orElse ((rows ! rowIndex s) CSV_STATUS) []) \<and>
      status s \<in> {Defined, Pending, NoService}) \<and>
   (\<forall>i < length rows.
      coordinatesRejected (rows ! i) \<or> statusRejected (rows ! i) \<longrightarrow>
      i \<notin> rowIndex ` set (parsedData rows))"
proof (intro conjI ballI allI impI)
  show "snd (fetchSchoolData (PapaComplete rows)) = Inr (parsedData rows)"
    by (simp add: fetchSchoolData_def)
next
  fix s assume "s \<in> set (parsedData rows)"
  then obtain i where i: "i < length rows" and m: "mapRow (rows ! i) i = Mapped s"
    using parsedData_origin by blast
  have idx: "rowIndex s = i" by (rule mapRow_Mapped(6)[OF m])
  show "\<not> isNaN (latitude s)" "\<not> isNaN (longitude s)"
    using mapRow_Mapped(1,3,4)[OF m] by (simp_all add: coordinatesRejected_def)
  show "rowIndex s < length rows" using idx i by simp
  show "statusText (status s) = trim (orElse ((rows ! rowIndex s) CSV_STATUS) [])"
    using mapRow_Mapped(5)[OF m] idx by simp
  show "status s \<in> {Defined, Pending, NoService}"
    by (cases "status s") simp_all
next
  fix i assume "i < length rows"
    and "coordinatesRejected (rows ! i) \<or> statusRejected (rows ! i)"
  then show "i \<notin> rowIndex ` set (parsedData rows)"
    by (rule rejected_not_in_parsedData)
qed

theorem mapped_schools_bear_numbers_and_status_witness:
  "parsedData [map_of [(''Latitude'', ''40.7''), (''Longitude'', ''-73.9''), (''Status'', ''Pending'')],
               map_of [(''Latitude'', ''north''), (''Longitude'', ''-73.9''), (''Status'', ''Pending'')]]
     = [\<lparr> school_id = (Finite (407 / 10), Finite (- (739 / 10)), 0), name = ''Unnamed School'',
          address = ''No Address Provided'', latitude = Finite (407 / 10),
          longitude = Finite (- (739 / 10)), status = Pending,
          administrativeDesignation = ''N/A'', district = ''N/A'' \<rparr>] \<and>
   \<not> isNaN (Finite (407 / 10)) \<and> \<not> isNaN (Finite (- (739 / 10))) \<and>
   statusText Pending = trim ''Pending'' \<and>
   coordinatesRejected (map_of [(''Latitude'', ''north''), (''Longitude'', ''-73.9''), (''Status'', ''Pending'')]) \<and>
   1 \<notin> rowIndex ` set (parsedData
          [map_of [(''Latitude'', ''40.7''), (''Longitude'', ''-73.9''), (''Status'', ''Pending'')],
           map_of [(''Latitude'', ''north''), (''Longitude'', ''-73.9''), (''Status'', ''Pending'')]])"
proof -
  let ?good = "map_of [(''Latitude'', ''40.7''), (''Longitude'', ''-73.9''), (''Status'', ''Pending'')]"
  let ?bad = "map_of [(''Latitude'', ''north''), (''Longitude'', ''-73.9''), (''Status'', ''Pending'')]"
  have mapped: "parsedData [?good, ?bad]
     = [\<lparr> school_id = (Finite (407 / 10), Finite (- (739 / 10)), 0), name = ''Unnamed School'',
          address = ''No Address Provided'', latitude = Finite (407 / 10),
          longitude = Finite (- (739 / 10)), status = Pending,
          administrativeDesignation = ''N/A'', district = ''N/A'' \<rparr>]"
    by (simp add: mapper_defs csv_defs number_defs)
  have rejected: "coordinatesRejected ?bad"
    by (simp add: mapper_defs csv_defs number_defs)
  have status: "orElse (?good CSV_STATUS) [] = ''Pending''"
    by (simp add: orElse_def csv_defs)
  show ?thesis
    using mapped_schools_bear_numbers_and_status [of "[?good, ?bad]"] mapped rejected status
    by (simp add: rowIndex_def)
qed

text \<open>
  C1 as stated fails: \<open>parseFloat\<close> reads the cell \<open>Infinity\<close> as the Number Infinity,
  which \<open>isNaN\<close> lets through, so the row is mapped to a School whose latitude is not
  finite.
\<close>

theorem infinite_latitude_counterexample:
  "map latitude (parsedData [map_of [(''Latitude'', ''Infinity''), (''Longitude'', ''-73.9''),
                                      (''Status'', ''Defined'')]]) = [PosInf]
   \<and> \<not> isFinite PosInf"
  by (simp add: mapper_defs csv_defs number_defs isFinite_def)

text \<open>
  C2, as amended. A row whose latitude or longitude cell is missing or does not begin
  (after leading white space and an optional sign) with a decimal number or \<open>Infinity\<close>
  is the origin of no School of the result, and the warning with its position (index
  plus two) is on the console. These are all the rows the coordinate test rejects: a
  cell that begins with a number passes it, whatever follows the number. For every list
  of rows the rows kept are exactly those that pass the coordinate test and the status
  test, in their order, so the result is as long as the input less the rows excluded
  for their coordinates or for their status; and every School kept has the numbers
  \<open>parseFloat\<close> reads from the cells of its row.
\<close>

theorem rows_without_coordinates_are_skipped:
  "(\<forall>i < length rows.
      noLeadingNumber ((rows ! i) CSV_LATITUDE) \<or> noLeadingNumber ((rows ! i) CSV_LONGITUDE) \<longrightarrow>
      i \<notin> rowIndex ` set (parsedData rows) \<and>
      coordinatesWarning i \<in> set (fst (fetchSchoolData (PapaComplete rows)))) \<and>
   map rowIndex (parsedData rows)
     = filter (\<lambda>i. \<not> (coordinatesRejected (rows ! i) \<or> statusRejected (rows ! i)))
         [0..<length rows] \<and>
   length (parsedData rows)
     = length rows - length (filter (\<lambda>r. coordinatesRejected r \<or> statusRejected r) rows) \<and>
   (\<forall>r. coordinatesRejected r
      \<longleftrightarrow> noLeadingNumber (r CSV_LATITUDE) \<or> noLeadingNumber (r CSV_LONGITUDE)) \<and>
   (\<forall>s \<in> set (parsedData rows).
      latitude s = parseFloat ((rows ! rowIndex s) CSV_LATITUDE) \<and>
      longitude s = parseFloat ((rows ! rowIndex s) CSV_LONGITUDE))"
proof (intro conjI allI impI ballI)
  fix i
  assume i: "i < length rows"
    and bad: "noLeadingNumber ((rows ! i) CSV_LATITUDE) \<or> noLeadingNumber ((rows ! i) CSV_LONGITUDE)"
  have rejected: "coordinatesRejected (rows ! i)"
    using bad by (simp add: coordinatesRejected_iff)
  show "i \<notin> rowIndex ` set (parsedData rows)"
    using i rejected by (simp add: rejected_not_in_parsedData)
  have "mapRow (rows ! i) i = Skipped (coordinatesWarning i)"
    using rejected by (rule mapRow_coordinates)
  then have "coordinatesWarning i \<in> set (consoleWarnings (mapRows rows 0))"
    using i warnings_origin by blast
  then show "coordinatesWarning i \<in> set (fst (fetchSchoolData (PapaComplete rows)))"
    by (simp add: fetchSchoolData_def)
next
  show "map rowIndex (parsedData rows)
     = filter (\<lambda>i. \<not> (coordinatesRejected (rows ! i) \<or> statusRejected (rows ! i)))
         [0..<length rows]"
    using kept_indices[of rows "[0..<length rows]"] by (simp add: parsedData_def mapRows_nth)
next
  have "length (parsedData rows) + length (consoleWarnings (mapRows rows 0)) = length rows"
    using length_keepSchools[of "mapRows rows 0"] by (simp add: parsedData_def mapRows_nth)
  then show "length (parsedData rows)
      = length rows - length (filter (\<lambda>r. coordinatesRejected r \<or> statusRejected r) rows)"
    by (simp add: length_consoleWarnings_mapRows)
next
  fix r
  show "coordinatesRejected r
      \<longleftrightarrow> noLeadingNumber (r CSV_LATITUDE) \<or> noLeadingNumber (r CSV_LONGITUDE)"
    by (rule coordinatesRejected_iff)
next
  fix s assume "s \<in> set (parsedData rows)"
  then obtain i where i: "i < length rows" and m: "mapRow (rows ! i) i = Mapped s"
    using parsedData_origin by blast
  have idx: "rowIndex s = i" by (rule mapRow_Mapped(6)[OF m])
  show "latitude s = parseFloat ((rows ! rowIndex s) CSV_LATITUDE)"
    using mapRow_Mapped(3)[OF m] idx by simp
  show "longitude s = parseFloat ((rows ! rowIndex s) CSV_LONGITUDE)"
    using mapRow_Mapped(4)[OF m] idx by simp
qed

theorem rows_without_coordinates_are_skipped_witness:
  "noLeadingNumber (map_of [(''Longitude'', ''-73.9''), (''Status'', ''Pending'')] CSV_LATITUDE) \<and>
   1 \<notin> rowIndex ` set (parsedData
          [map_of [(''Latitude'', ''40.7''), (''Longitude'', ''-73.9''), (''Status'', ''Pending'')],
           map_of [(''Longitude'', ''-73.9''), (''Status'', ''Pending'')]]) \<and>
   ''Skipping row 3 due to invalid latitude/longitude.'' \<in> set (fst (fetchSchoolData (PapaComplete
          [map_of [(''Latitude'', ''40.7''), (''Longitude'', ''-73.9''), (''Status'', ''Pending'')],
           map_of [(''Longitude'', ''-73.9''), (''Status'', ''Pending'')]]))) \<and>
   map rowIndex (parsedData
          [map_of [(''Latitude'', ''40.7''), (''Longitude'', ''-73.9''), (''Status'', ''Pending'')],
           map_of [(''Longitude'', ''-73.9''), (''Status'', ''Pending'')]]) = [0] \<and>
   length (parsedData
          [map_of [(''Latitude'', ''40.7''), (''Longitude'', ''-73.9''), (''Status'', ''Pending'')],
           map_of [(''Longitude'', ''-73.9''), (''Status'', ''Pending'')]]) = 1"
proof -
  let ?good = "map_of [(''Latitude'', ''40.7''), (''Longitude'', ''-73.9''), (''Status'', ''Pending'')]"
  let ?bad = "map_of [(''Longitude'', ''-73.9''), (''Status'', ''Pending'')]"
  let ?rows = "[?good, ?bad]"
  have missing: "noLeadingNumber (?bad CSV_LATITUDE)"
    by (simp add: noLeadingNumber_def csv_defs)
  have warning: "coordinatesWarning 1 = ''Skipping row 3 due to invalid latitude/longitude.''"
    by code_simp
  have good: "\<not> (coordinatesRejected ?good \<or> statusRejected ?good)"
    by (simp add: mapper_defs csv_defs number_defs)
  have bad: "coordinatesRejected ?bad"
    using missing by (simp add: coordinatesRejected_iff)
  have kept: "filter (\<lambda>i. \<not> (coordinatesRejected (?rows ! i) \<or> statusRejected (?rows ! i)))
         [0..<length ?rows] = [0]"
    using good bad by (simp add: upt_conv_Cons)
  have excluded: "length (filter (\<lambda>r. coordinatesRejected r \<or> statusRejected r) ?rows) = 1"
    using good bad by simp
  note all = rows_without_coordinates_are_skipped [of ?rows]
  have second: "(1::nat) < length ?rows" by simp
  have hyp: "noLeadingNumber ((?rows ! 1) CSV_LATITUDE) \<or> noLeadingNumber ((?rows ! 1) CSV_LONGITUDE)"
    using missing by simp
  have skipped: "1 \<notin> rowIndex ` set (parsedData ?rows) \<and>
      coordinatesWarning 1 \<in> set (fst (fetchSchoolData (PapaComplete ?rows)))"
    by (rule all [THEN conjunct1, rule_format, OF second hyp])
  have indices: "map rowIndex (parsedData ?rows) = [0]"
    using all [THEN conjunct2, THEN conjunct1] unfolding kept .
  have size: "length (parsedData ?rows) = 1"
    using all [THEN conjunct2, THEN conjunct2, THEN conjunct1] unfolding excluded by simp
  from missing skipped indices size show ?thesis
    unfolding warning by blast
qed

text \<open>
  C2 as stated fails: the cell \<open>40.7abc\<close> is not a number, yet \<open>parseFloat\<close> reads its
  longest numeric prefix, so the row is kept with latitude 40.7 and nothing is warned.
\<close>

theorem numeric_prefix_counterexample:
  "map latitude (parsedData [map_of [(''Latitude'', ''40.7abc''), (''Longitude'', ''-73.9''),
                                      (''Status'', ''Defined'')]]) = [Finite (407 / 10)] \<and>
   fst (fetchSchoolData (PapaComplete [map_of [(''Latitude'', ''40.7abc''), (''Longitude'', ''-73.9''),
                                      (''Status'', ''Defined'')]])) = []"
  by (simp add: fetchSchoolData_def mapper_defs csv_defs number_defs)


subsection \<open>The display address and the defaults\<close>

text \<open>
  C3. For every accepted row, the address of the School is the join of the non-empty
  parts among street, city and state, in this order, with a comma and a space between
  them, followed by a space and the zip when there is one (and the fallback text when
  all of this is empty). The parts 123 Main St, Brooklyn, NY and 11201 give exactly
  \<open>123 Main St, Brooklyn, NY 11201\<close>; three non-empty parts are all joined; an empty
  city between a street and a state leaves one separator only.
\<close>

theorem address_assembly:
  assumes "mapRow r index = Mapped s"
  shows "address s =
           (let a = spec_address (orElse (r CSV_ADDRESS) []) (orElse (r CSV_CITY) [])
                      (orElse (r CSV_STATE) []) (orElse (r CSV_ZIP_CODE) [])
            in if a = [] then ''No Address Provided'' else a) \<and>
         fullAddress ''123 Main St'' ''Brooklyn'' ''NY'' ''11201''
           = ''123 Main St, Brooklyn, NY 11201'' \<and>
         (\<forall>street city state zipCode.
            street \<noteq> [] \<longrightarrow> city \<noteq> [] \<longrightarrow> state \<noteq> [] \<longrightarrow>
            fullAddress street city state zipCode
              = street @ '', '' @ city @ '', '' @ state
                  @ (if zipCode = [] then [] else '' '' @ zipCode)) \<and>
         (\<forall>street state zipCode.
            street \<noteq> [] \<longrightarrow> state \<noteq> [] \<longrightarrow>
            fullAddress street [] state zipCode
              = street @ '', '' @ state @ (if zipCode = [] then [] else '' '' @ zipCode))"
proof (intro conjI allI impI)
  show "address s =
           (let a = spec_address (orElse (r CSV_ADDRESS) []) (orElse (r CSV_CITY) [])
                      (orElse (r CSV_STATE) []) (orElse (r CSV_ZIP_CODE) [])
            in if a = [] then ''No Address Provided'' else a)"
    using mapRow_Mapped(8)[OF assms] by (simp only: fullAddress_spec)
  show "fullAddress ''123 Main St'' ''Brooklyn'' ''NY'' ''11201''
           = ''123 Main St, Brooklyn, NY 11201''"
    by (simp add: fullAddress_def)
next
  fix street city state zipCode :: string
  assume "street \<noteq> []" "city \<noteq> []" "state \<noteq> []"
  then show "fullAddress street city state zipCode
              = street @ '', '' @ city @ '', '' @ state
                  @ (if zipCode = [] then [] else '' '' @ zipCode)"
    by (simp add: fullAddress_def)
next
  fix street state zipCode :: string
  assume "street \<noteq> []" "state \<noteq> []"
  then show "fullAddress street [] state zipCode
              = street @ '', '' @ state @ (if zipCode = [] then [] else '' '' @ zipCode)"
    by (simp add: fullAddress_def)
qed

theorem address_assembly_witness:
  "mapRow (map_of [(''Street Address'', ''123 Main St''), (''City'', ''''), (''State'', ''NY''),
                   (''Zip Code'', ''11201''), (''Latitude'', ''40.7''), (''Longitude'', ''-73.9''),
                   (''Status'', ''Defined'')]) 0
     = Mapped \<lparr> school_id = (Finite (407 / 10), Finite (- (739 / 10)), 0),
          name = ''Unnamed School'', address = ''123 Main St, NY 11201'',
          latitude = Finite (407 / 10), longitude = Finite (- (739 / 10)), status = Defined,
          administrativeDesignation = ''N/A'', district = ''N/A'' \<rparr> \<and>
   ''123 Main St, NY 11201''
     = (let a = spec_address ''123 Main St'' [] ''NY'' ''11201''
        in if a = [] then ''No Address Provided'' else a)"
proof -
  let ?r = "map_of [(''Street Address'', ''123 Main St''), (''City'', ''''), (''State'', ''NY''),
                   (''Zip Code'', ''11201''), (''Latitude'', ''40.7''), (''Longitude'', ''-73.9''),
                   (''Status'', ''Defined'')]"
  let ?s = "\<lparr> school_id = (Finite (407 / 10), Finite (- (739 / 10)), 0),
          name = ''Unnamed School'', address = ''123 Main St, NY 11201'',
          latitude = Finite (407 / 10), longitude = Finite (- (739 / 10)), status = Defined,
          administrativeDesignation = ''N/A'', district = ''N/A'' \<rparr>"
  have cells: "orElse (?r CSV_ADDRESS) [] = ''123 Main St''" "orElse (?r CSV_CITY) [] = []"
    "orElse (?r CSV_STATE) [] = ''NY''" "orElse (?r CSV_ZIP_CODE) [] = ''11201''"
    "orElse (?r CSV_STATUS) [] = ''Defined''" "orElse (?r CSV_NAME) ''Unnamed School'' = ''Unnamed School''"
    "orElse (?r CSV_ADMINISTRATIVE_DESIGNATION) ''N/A'' = ''N/A''"
    "orElse (?r CSV_DISTRICT) ''N/A'' = ''N/A''"
    by (simp_all add: orElse_def csv_defs)
  have lat: "parseFloat (?r CSV_LATITUDE) = Finite (407 / 10)"
    by (simp add: csv_defs number_defs)
  have lng: "parseFloat (?r CSV_LONGITUDE) = Finite (- (739 / 10))"
    by (simp add: csv_defs number_defs)
  have mapped: "mapRow ?r 0 = Mapped ?s"
    unfolding mapRow_def cells lat lng
    by (simp add: Let_def isNaN_def trim_def isWhiteSpace_def fullAddress_def)
  have "address ?s =
           (let a = spec_address (orElse (?r CSV_ADDRESS) []) (orElse (?r CSV_CITY) [])
                      (orElse (?r CSV_STATE) []) (orElse (?r CSV_ZIP_CODE) [])
            in if a = [] then ''No Address Provided'' else a)"
    using address_assembly [OF mapped] by (rule conjunct1)
  then have "''123 Main St, NY 11201''
     = (let a = spec_address ''123 Main St'' [] ''NY'' ''11201''
        in if a = [] then ''No Address Provided'' else a)"
    unfolding cells by simp
  with mapped show ?thesis by (rule conjI)
qed

text \<open>
  C10. For every accepted row, the address is the fallback \<open>No Address Provided\<close> when
  street, city, state and zip are all empty (missing or an empty cell) and the assembled
  address in every other case; with only the zip non-empty it is a space followed by
  the zip; a row whose School Name is missing or an empty cell gets the name
  \<open>Unnamed School\<close>, and any other name is kept.
\<close>

theorem address_fallback_and_default_name:
  assumes "mapRow r index = Mapped s"
  shows "(let street = (case r CSV_ADDRESS of None \<Rightarrow> [] | Some t \<Rightarrow> t);
              city = (case r CSV_CITY of None \<Rightarrow> [] | Some t \<Rightarrow> t);
              state = (case r CSV_STATE of None \<Rightarrow> [] | Some t \<Rightarrow> t);
              zipCode = (case r CSV_ZIP_CODE of None \<Rightarrow> [] | Some t \<Rightarrow> t)
          in address s =
               (if street = [] \<and> city = [] \<and> state = [] \<and> zipCode = []
                then ''No Address Provided''
                else fullAddress street city state zipCode) \<and>
             (street = [] \<and> city = [] \<and> state = [] \<and> zipCode \<noteq> []
                \<longrightarrow> address s = '' '' @ zipCode)) \<and>
         (r CSV_NAME = None \<or> r CSV_NAME = Some [] \<longrightarrow> name s = ''Unnamed School'') \<and>
         (\<forall>n. r CSV_NAME = Some n \<longrightarrow> n \<noteq> [] \<longrightarrow> name s = n)"
proof -
  have cell: "orElse v [] = (case v of None \<Rightarrow> [] | Some t \<Rightarrow> t)" for v
    by (simp add: orElse_def split: option.splits)
  have a: "address s = (let a = fullAddress (orElse (r CSV_ADDRESS) []) (orElse (r CSV_CITY) [])
                        (orElse (r CSV_STATE) []) (orElse (r CSV_ZIP_CODE) [])
                      in if a = [] then ''No Address Provided'' else a)"
    by (rule mapRow_Mapped(8)[OF assms])
  have n: "name s = orElse (r CSV_NAME) ''Unnamed School''"
    by (rule mapRow_Mapped(7)[OF assms])
  have only_zip: "z \<noteq> [] \<Longrightarrow> fullAddress [] [] [] z = '' '' @ z" for z
    by (simp add: fullAddress_def)
  have names: "(r CSV_NAME = None \<or> r CSV_NAME = Some [] \<longrightarrow> name s = ''Unnamed School'') \<and>
         (\<forall>n. r CSV_NAME = Some n \<longrightarrow> n \<noteq> [] \<longrightarrow> name s = n)"
    using n by (auto simp: orElse_def)
  have addr: "(let street = (case r CSV_ADDRESS of None \<Rightarrow> [] | Some t \<Rightarrow> t);
              city = (case r CSV_CITY of None \<Rightarrow> [] | Some t \<Rightarrow> t);
              state = (case r CSV_STATE of None \<Rightarrow> [] | Some t \<Rightarrow> t);
              zipCode = (case r CSV_ZIP_CODE of None \<Rightarrow> [] | Some t \<Rightarrow> t)
          in address s =
               (if street = [] \<and> city = [] \<and> state = [] \<and> zipCode = []
                then ''No Address Provided''
                else fullAddress street city state zipCode) \<and>
             (street = [] \<and> city = [] \<and> state = [] \<and> zipCode \<noteq> []
                \<longrightarrow> address s = '' '' @ zipCode))"
    using a only_zip unfolding cell
    by (auto simp: Let_def fullAddress_empty_iff)
  from addr names show ?thesis by (rule conjI)
qed

theorem address_fallback_and_default_name_witness:
  "mapRow (map_of [(''Zip Code'', ''11201''), (''Latitude'', ''40.7''), (''Longitude'', ''-73.9''),
                   (''Status'', ''No Service'')]) 4
     = Mapped \<lparr> school_id = (Finite (407 / 10), Finite (- (739 / 10)), 4),
          name = ''Unnamed School'', address = '' 11201'',
          latitude = Finite (407 / 10), longitude = Finite (- (739 / 10)), status = NoService,
          administrativeDesignation = ''N/A'', district = ''N/A'' \<rparr> \<and>
   map_of [(''Zip Code'', ''11201''), (''Latitude'', ''40.7''), (''Longitude'', ''-73.9''),
           (''Status'', ''No Service'')] CSV_NAME = None \<and>
   '' 11201'' = fullAddress [] [] [] ''11201'' \<and> '' 11201'' = '' '' @ ''11201'' \<and>
   mapRow (map_of [(''School Name'', []), (''Street Address'', []), (''Latitude'', ''40.7''),
                   (''Longitude'', ''-73.9''), (''Status'', ''Defined'')]) 0
     = Mapped \<lparr> school_id = (Finite (407 / 10), Finite (- (739 / 10)), 0),
          name = ''Unnamed School'', address = ''No Address Provided'',
          latitude = Finite (407 / 10), longitude = Finite (- (739 / 10)), status = Defined,
          administrativeDesignation = ''N/A'', district = ''N/A'' \<rparr> \<and>
   map_of [(''School Name'', []), (''Street Address'', []), (''Latitude'', ''40.7''),
           (''Longitude'', ''-73.9''), (''Status'', ''Defined'')] CSV_NAME = Some []"
proof -
  let ?r = "map_of [(''Zip Code'', ''11201''), (''Latitude'', ''40.7''), (''Longitude'', ''-73.9''),
                   (''Status'', ''No Service'')]"
  let ?s = "\<lparr> school_id = (Finite (407 / 10), Finite (- (739 / 10)), 4),
          name = ''Unnamed School'', address = '' 11201'',
          latitude = Finite (407 / 10), longitude = Finite (- (739 / 10)), status = NoService,
          administrativeDesignation = ''N/A'', district = ''N/A'' \<rparr>"
  let ?r' = "map_of [(''School Name'', []), (''Street Address'', []), (''Latitude'', ''40.7''),
                   (''Longitude'', ''-73.9''), (''Status'', ''Defined'')]"
  let ?s' = "\<lparr> school_id = (Finite (407 / 10), Finite (- (739 / 10)), 0),
          name = ''Unnamed School'', address = ''No Address Provided'',
          latitude = Finite (407 / 10), longitude = Finite (- (739 / 10)), status = Defined,
          administrativeDesignation = ''N/A'', district = ''N/A'' \<rparr>"
  have cells: "orElse (?r CSV_ADDRESS) [] = []" "orElse (?r CSV_CITY) [] = []"
    "orElse (?r CSV_STATE) [] = []" "orElse (?r CSV_ZIP_CODE) [] = ''11201''"
    "orElse (?r CSV_STATUS) [] = ''No Service''"
    "orElse (?r CSV_NAME) ''Unnamed School'' = ''Unnamed School''"
    "orElse (?r CSV_ADMINISTRATIVE_DESIGNATION) ''N/A'' = ''N/A''"
    "orElse (?r CSV_DISTRICT) ''N/A'' = ''N/A''"
    by (simp_all add: orElse_def csv_defs)
  have cells': "orElse (?r' CSV_ADDRESS) [] = []" "orElse (?r' CSV_CITY) [] = []"
    "orElse (?r' CSV_STATE) [] = []" "orElse (?r' CSV_ZIP_CODE) [] = []"
    "orElse (?r' CSV_STATUS) [] = ''Defined''"
    "orElse (?r' CSV_NAME) ''Unnamed School'' = ''Unnamed School''"
    "orElse (?r' CSV_ADMINISTRATIVE_DESIGNATION) ''N/A'' = ''N/A''"
    "orElse (?r' CSV_DISTRICT) ''N/A'' = ''N/A''"
    by (simp_all add: orElse_def csv_defs)
  have raw: "?r CSV_ADDRESS = None" "?r CSV_CITY = None" "?r CSV_STATE = None"
    "?r CSV_ZIP_CODE = Some ''11201''"
    by (simp_all add: csv_defs)
  have lat: "parseFloat (?r CSV_LATITUDE) = Finite (407 / 10)"
    "parseFloat (?r' CSV_LATITUDE) = Finite (407 / 10)"
    by (simp_all add: csv_defs number_defs)
  have lng: "parseFloat (?r CSV_LONGITUDE) = Finite (- (739 / 10))"
    "parseFloat (?r' CSV_LONGITUDE) = Finite (- (739 / 10))"
    by (simp_all add: csv_defs number_defs)
  have mapped: "mapRow ?r 4 = Mapped ?s"
    unfolding mapRow_def cells lat lng
    by (simp add: Let_def isNaN_def trim_def isWhiteSpace_def fullAddress_def)
  have mapped': "mapRow ?r' 0 = Mapped ?s'"
    unfolding mapRow_def cells' lat lng
    by (simp add: Let_def isNaN_def trim_def isWhiteSpace_def fullAddress_def)
  have missing: "?r CSV_NAME = None" by (simp add: csv_defs)
  have blank: "?r' CSV_NAME = Some []" by (simp add: csv_defs)
  have "(let street = (case ?r CSV_ADDRESS of None \<Rightarrow> [] | Some t \<Rightarrow> t);
              city = (case ?r CSV_CITY of None \<Rightarrow> [] | Some t \<Rightarrow> t);
              state = (case ?r CSV_STATE of None \<Rightarrow> [] | Some t \<Rightarrow> t);
              zipCode = (case ?r CSV_ZIP_CODE of None \<Rightarrow> [] | Some t \<Rightarrow> t)
          in address ?s =
               (if street = [] \<and> city = [] \<and> state = [] \<and> zipCode = []
                then ''No Address Provided''
                else fullAddress street city state zipCode) \<and>
             (street = [] \<and> city = [] \<and> state = [] \<and> zipCode \<noteq> []
                \<longrightarrow> address ?s = '' '' @ zipCode))"
    using address_fallback_and_default_name [OF mapped] by (rule conjunct1)
  then have zip_only: "'' 11201'' = fullAddress [] [] [] ''11201'' \<and> '' 11201'' = '' '' @ ''11201''"
    unfolding raw by (simp add: Let_def)
  have "?r' CSV_NAME = None \<or> ?r' CSV_NAME = Some [] \<longrightarrow> name ?s' = ''Unnamed School''"
    using address_fallback_and_default_name [OF mapped'] by (elim conjE)
  from mapped missing zip_only mapped' blank show ?thesis by blast
qed


section \<open>Properties of the controller\<close>

subsection \<open>Search\<close>

lemma startsWith_prefix: "startsWith s p \<longleftrightarrow> prefix p s"
  by (induction s p rule: startsWith.induct) auto

lemma includes_str_sublist: "includes_str hay needle \<longleftrightarrow> sublist needle hay"
  by (induction hay) (auto simp: startsWith_prefix sublist_Cons_right)


text \<open>
  C4. A search never changes the collection. With a blank input the selection is
  cleared and nothing is announced. Otherwise the selection becomes the first School,
  in collection order, whose name in lower case contains the input in lower case;
  when no name does, the selection is cleared and the user is told so by an alert.
\<close>

theorem search_selects_first_match:
  "schools (handleSearch st) = schools st \<and>
   (trim (searchTerm st) = [] \<longrightarrow>
      selectedSchool (handleSearch st) = None \<and> alerts (handleSearch st) = alerts st) \<and>
   (trim (searchTerm st) \<noteq> [] \<longrightarrow>
      (case selectedSchool (handleSearch st) of
         Some found \<Rightarrow>
           (\<exists>i < length (schools st).
              found = schools st ! i \<and>
              sublist (toLowerCase (searchTerm st)) (toLowerCase (name found)) \<and>
              (\<forall>j < i. \<not> sublist (toLowerCase (searchTerm st))
                               (toLowerCase (name (schools st ! j))))) \<and>
           alerts (handleSearch st) = alerts st
       | None \<Rightarrow>
           (\<forall>school \<in> set (schools st).
              \<not> sublist (toLowerCase (searchTerm st)) (toLowerCase (name school))) \<and>
           alerts (handleSearch st)
             = alerts st @ [''No school found matching '' @ [CHR 0x22] @ searchTerm st
                              @ [CHR 0x22] @ ''.'']))"
proof -
  let ?needle = "toLowerCase (searchTerm st)"
  let ?P = "\<lambda>school. includes_str (toLowerCase (name school)) ?needle"
  have kept: "schools (handleSearch st) = schools st"
    by (simp add: handleSearch_def Let_def split: option.splits)
  have blank: "selectedSchool (handleSearch st) = None \<and> alerts (handleSearch st) = alerts st"
    if "trim (searchTerm st) = []"
    using that by (simp add: handleSearch_def)
  have found: "case selectedSchool (handleSearch st) of
         Some found \<Rightarrow>
           (\<exists>i < length (schools st).
              found = schools st ! i \<and>
              sublist ?needle (toLowerCase (name found)) \<and>
              (\<forall>j < i. \<not> sublist ?needle (toLowerCase (name (schools st ! j))))) \<and>
           alerts (handleSearch st) = alerts st
       | None \<Rightarrow>
           (\<forall>school \<in> set (schools st). \<not> sublist ?needle (toLowerCase (name school))) \<and>
           alerts (handleSearch st)
             = alerts st @ [''No school found matching '' @ [CHR 0x22] @ searchTerm st
                              @ [CHR 0x22] @ ''.'']"
    if nonblank: "trim (searchTerm st) \<noteq> []"
  proof (cases "find ?P (schools st)")
    case None
    then have "\<forall>school \<in> set (schools st). \<not> ?P school"
      by (simp add: find_None_iff)
    with None nonblank show ?thesis
      by (simp add: handleSearch_def Let_def includes_str_sublist)
  next
    case (Some found)
    then obtain i where "i < length (schools st)" "?P (schools st ! i)"
      "found = schools st ! i" "\<forall>j < i. \<not> ?P (schools st ! j)"
      unfolding find_Some_iff by blast
    with Some nonblank show ?thesis
      by (auto simp: handleSearch_def Let_def includes_str_sublist)
  qed
  from kept blank found show ?thesis by blast
qed

theorem search_selects_first_match_witness:
  "trim ''lincoln'' \<noteq> [] \<and>
   selectedSchool (handleSearch \<lparr> schools =
       [\<lparr> school_id = (Finite 40, Finite (- 73), 0), name = ''Washington Academy'',
          address = ''No Address Provided'', latitude = Finite 40, longitude = Finite (- 73),
          status = Pending, administrativeDesignation = ''N/A'', district = ''N/A'' \<rparr>,
        \<lparr> school_id = (Finite 41, Finite (- 74), 1), name = ''Lincoln High School'',
          address = ''No Address Provided'', latitude = Finite 41, longitude = Finite (- 74),
          status = Defined, administrativeDesignation = ''N/A'', district = ''N/A'' \<rparr>],
       isLoading = False, error = None, searchTerm = ''lincoln'', selectedSchool = None,
       lastUpdated = Some 5, alerts = [] \<rparr>)
     = Some \<lparr> school_id = (Finite 41, Finite (- 74), 1), name = ''Lincoln High School'',
          address = ''No Address Provided'', latitude = Finite 41, longitude = Finite (- 74),
          status = Defined, administrativeDesignation = ''N/A'', district = ''N/A'' \<rparr> \<and>
   sublist (toLowerCase ''lincoln'') (toLowerCase ''Lincoln High School'') \<and>
   length (schools (handleSearch \<lparr> schools =
       [\<lparr> school_id = (Finite 40, Finite (- 73), 0), name = ''Washington Academy'',
          address = ''No Address Provided'', latitude = Finite 40, longitude = Finite (- 73),
          status = Pending, administrativeDesignation = ''N/A'', district = ''N/A'' \<rparr>,
        \<lparr> school_id = (Finite 41, Finite (- 74), 1), name = ''Lincoln High School'',
          address = ''No Address Provided'', latitude = Finite 41, longitude = Finite (- 74),
          status = Defined, administrativeDesignation = ''N/A'', district = ''N/A'' \<rparr>],
       isLoading = False, error = None, searchTerm = ''lincoln'', selectedSchool = None,
       lastUpdated = Some 5, alerts = [] \<rparr>)) = 2"
proof -
  let ?a = "\<lparr> school_id = (Finite 40, Finite (- 73), 0), name = ''Washington Academy'',
          address = ''No Address Provided'', latitude = Finite 40, longitude = Finite (- 73),
          status = Pending, administrativeDesignation = ''N/A'', district = ''N/A'' \<rparr>"
  let ?b = "\<lparr> school_id = (Finite 41, Finite (- 74), 1), name = ''Lincoln High School'',
          address = ''No Address Provided'', latitude = Finite 41, longitude = Finite (- 74),
          status = Defined, administrativeDesignation = ''N/A'', district = ''N/A'' \<rparr>"
  let ?st = "\<lparr> schools = [?a, ?b], isLoading = False, error = None, searchTerm = ''lincoln'',
       selectedSchool = None, lastUpdated = Some 5, alerts = [] \<rparr>"
  have nonblank: "trim ''lincoln'' \<noteq> []"
    by (simp add: trim_def isWhiteSpace_def)
  have lower: "toLowerCase ''lincoln'' = ''lincoln''"
    "toLowerCase ''Lincoln High School'' = ''lincoln high school''"
    "toLowerCase ''Washington Academy'' = ''washington academy''"
    by code_simp+
  have selected: "selectedSchool (handleSearch ?st) = Some ?b"
    using nonblank by (simp add: handleSearch_def lower)
  have all: "schools (handleSearch ?st) = schools ?st \<and>
     (trim (searchTerm ?st) \<noteq> [] \<longrightarrow>
        (\<exists>i < length (schools ?st). ?b = schools ?st ! i \<and>
           sublist (toLowerCase (searchTerm ?st)) (toLowerCase (name ?b)) \<and>
           (\<forall>j < i. \<not> sublist (toLowerCase (searchTerm ?st))
                            (toLowerCase (name (schools ?st ! j))))) \<and>
        alerts (handleSearch ?st) = alerts ?st)"
    using search_selects_first_match [of ?st] unfolding selected by simp
  then have "sublist (toLowerCase ''lincoln'') (toLowerCase ''Lincoln High School'')"
    using nonblank by auto
  moreover have "length (schools (handleSearch ?st)) = 2"
    using all by simp
  ultimately show ?thesis using nonblank selected by blast
qed


subsection \<open>Polling and the load cycle: auxiliary facts\<close>

lemma poll_never:
  "(\<forall>t. \<not> w libName t) \<Longrightarrow> attempts \<le> maxAttempts \<Longrightarrow>
     poll libName w attempts t = (t + (maxAttempts - attempts), Inl (libraryTimeout libName))"
proof (induction libName w attempts t rule: poll.induct)
  case (1 libName w attempts t)
  show ?case
  proof (cases "attempts + 1 > maxAttempts")
    case True
    with 1 show ?thesis by (subst poll.simps) simp
  next
    case False
    with 1 have "poll libName w (attempts + 1) (t + 1)
        = (t + 1 + (maxAttempts - (attempts + 1)), Inl (libraryTimeout libName))"
      by simp
    with False 1(2) show ?thesis by (subst poll.simps) simp
  qed
qed

lemma poll_resolved_bound:
  "poll libName w attempts t = (t', Inr u) \<Longrightarrow> attempts \<le> maxAttempts \<Longrightarrow>
     t \<le> t' \<and> t' \<le> t + (maxAttempts - attempts) \<and> w libName t'"
proof (induction libName w attempts t rule: poll.induct)
  case (1 libName w attempts t)
  show ?case
  proof (cases "w libName t")
    case True
    with 1(2) show ?thesis by (subst (asm) poll.simps) simp
  next
    case False
    show ?thesis
    proof (cases "attempts + 1 > maxAttempts")
      case True
      with False 1(2) show ?thesis by (subst (asm) poll.simps) simp
    next
      case more: False
      with False 1(2) have "poll libName w (attempts + 1) (t + 1) = (t', Inr u)"
        by (subst (asm) poll.simps) simp
      with 1(1)[OF False more] more
      have "t + 1 \<le> t' \<and> t' \<le> t + 1 + (maxAttempts - (attempts + 1)) \<and> w libName t'"
        by simp
      with more show ?thesis by linarith
    qed
  qed
qed

lemma waitForLibrary_never:
  "(\<forall>t. \<not> w libName t) \<Longrightarrow>
     waitForLibrary libName w t0 = (t0 + maxAttempts + 1, Inl (libraryTimeout libName))"
  by (simp add: waitForLibrary_def poll_never)

lemma waitForLibrary_resolved_bound:
  "waitForLibrary libName w t0 = (t1, Inr u) \<Longrightarrow> t0 < t1 \<and> t1 \<le> t0 + maxAttempts + 1"
  using poll_resolved_bound[of libName w 0 "t0 + 1" t1 u] by (simp add: waitForLibrary_def)

lemma timeout_names_library: "sublist libName (libraryTimeout libName)"
  unfolding libraryTimeout_def sublist_def by (metis append.assoc)

lemma errorDetails_google: "errorDetails (libraryTimeout ''google'') = MapKeyHint"
  by (simp add: errorDetails_def libraryTimeout_def)

lemma errorDetails_Papa: "errorDetails (libraryTimeout ''Papa'') = ParserHint"
  by (simp add: errorDetails_def libraryTimeout_def)

lemma loadData_failed:
  assumes "awaited env t0 = (t, ws, Inl msg)"
  shows "loadData env t0 st
    = (t, ws, (loadBegin st)\<lparr> error := Some \<lparr> message = msg, details = errorDetails msg \<rparr>,
                               lastUpdated := None, isLoading := False \<rparr>)"
  using assms by (simp add: loadData_def loadSettle_def)

lemma renderContent_failed:
  "renderContent (st\<lparr> error := Some \<lparr> message = msg, details = h \<rparr>,
                      lastUpdated := None, isLoading := False \<rparr>) = ErrorDisplay msg h"
  by (simp add: renderContent_def)


lemma poll_rejected:
  "poll libName w attempts t = (t', Inl msg) \<Longrightarrow> attempts \<le> maxAttempts \<Longrightarrow>
     t' = t + (maxAttempts - attempts) \<and> msg = libraryTimeout libName"
proof (induction libName w attempts t rule: poll.induct)
  case (1 libName w attempts t)
  show ?case
  proof (cases "w libName t")
    case True
    with 1(2) show ?thesis by (subst (asm) poll.simps) simp
  next
    case False
    show ?thesis
    proof (cases "attempts + 1 > maxAttempts")
      case True
      with False 1(2,3) show ?thesis by (subst (asm) poll.simps) simp
    next
      case more: False
      with False 1(2) have "poll libName w (attempts + 1) (t + 1) = (t', Inl msg)"
        by (subst (asm) poll.simps) simp
      with 1(1)[OF False more] more
      have "t' = t + 1 + (maxAttempts - (attempts + 1)) \<and> msg = libraryTimeout libName"
        by simp
      with more show ?thesis by linarith
    qed
  qed
qed

lemma waitForLibrary_rejected:
  "waitForLibrary libName w t0 = (t1, Inl msg) \<Longrightarrow>
     t1 = t0 + maxAttempts + 1 \<and> msg = libraryTimeout libName"
  using poll_rejected[of libName w 0 "t0 + 1" t1 msg] by (simp add: waitForLibrary_def)

lemma runLoads_append: "runLoads (xs @ ys) st = runLoads ys (runLoads xs st)"
  by (induction xs st rule: runLoads.induct) simp_all

lemma isLoading_handleSearch: "isLoading (handleSearch st) = isLoading st"
  by (simp add: handleSearch_def Let_def split: option.splits)

lemma reachable_single_flight:
  "reachable s \<Longrightarrow> pending s \<le> 1 \<and> (isLoading (app s) \<longleftrightarrow> pending s = 1)"
proof (induction rule: reachable.induct)
  case mount
  show ?case by (simp add: loadBegin_def)
next
  case (refresh s)
  then show ?case by (auto simp: loadBegin_def controlsRendered_def)
next
  case (settle s now res)
  then show ?case by (auto simp: loadSettle_def split: sum.splits)
next
  case (typing s v)
  then show ?case by simp
next
  case (search s)
  then show ?case by (simp add: isLoading_handleSearch)
next
  case (select s school)
  then show ?case by (simp add: handleSchoolSelect_def)
qed


lemma poll_first_defined:
  "w libName k \<Longrightarrow> \<forall>t'. t \<le> t' \<and> t' < k \<longrightarrow> \<not> w libName t' \<Longrightarrow> t \<le> k \<Longrightarrow>
     attempts + (k - t) \<le> maxAttempts \<Longrightarrow> poll libName w attempts t = (k, Inr ())"
proof (induction "k - t" arbitrary: attempts t)
  case 0
  then have "t = k" by simp
  with 0 show ?case by (subst poll.simps) simp
next
  case (Suc n)
  then have less: "t < k" and undefined: "\<not> w libName t" by auto
  have more: "\<not> attempts + 1 > maxAttempts" using Suc(2,6) by linarith
  have "poll libName w (attempts + 1) (t + 1) = (k, Inr ())"
  proof (rule Suc(1))
    show "n = k - (t + 1)" using Suc(2) by simp
    show "w libName k" by (rule Suc(3))
    show "\<forall>t'. t + 1 \<le> t' \<and> t' < k \<longrightarrow> \<not> w libName t'" using Suc(4) by simp
    show "t + 1 \<le> k" using less by simp
    show "attempts + 1 + (k - (t + 1)) \<le> maxAttempts" using Suc(2,6) by linarith
  qed
  with undefined more show ?case by (subst poll.simps) simp
qed

lemma errorDetails_maps:
  "errorDetails ''Google Maps API script loaded, but maps object is not available.'' = MapKeyHint"
  by (simp add: errorDetails_def)

subsection \<open>A load that fails\<close>

text \<open>
  C5, as amended. Whenever what a load awaits fails, the cycle ends with the error
  recorded (the message and the hint chosen from it), the loading flag off and the
  time stamp cleared, and what is rendered is the error display in place of the map.
  The School collection and the selection are left as they were.
\<close>

theorem failed_load_keeps_collection:
  assumes "awaited env t0 = (t, ws, Inl msg)"
  shows "case loadData env t0 st of
           (t', ws', st') \<Rightarrow>
             t' = t \<and>
             error st' = Some \<lparr> message = msg, details = errorDetails msg \<rparr> \<and>
             \<not> isLoading st' \<and> lastUpdated st' = None \<and>
             renderContent st' = ErrorDisplay msg (errorDetails msg) \<and>
             schools st' = schools st \<and> selectedSchool st' = selectedSchool st"
  unfolding loadData_failed [OF assms]
  by (simp add: renderContent_failed) (simp add: loadBegin_def)

theorem failed_load_keeps_collection_witness:
  "awaited \<lparr> libraries = (\<lambda>libName t. True), googleMaps = (\<lambda>t. True),
             papa = PapaError ''Network Error'', fetchTicks = 3 \<rparr> 0
     = (5, [], Inl ''Could not fetch or parse CSV file from URL. Network Error'') \<and>
   schools (snd (snd (loadData \<lparr> libraries = (\<lambda>libName t. True), googleMaps = (\<lambda>t. True),
             papa = PapaError ''Network Error'', fetchTicks = 3 \<rparr> 0
      \<lparr> schools = [\<lparr> school_id = (Finite 41, Finite (- 74), 0), name = ''Lincoln High School'',
          address = ''No Address Provided'', latitude = Finite 41, longitude = Finite (- 74),
          status = Defined, administrativeDesignation = ''N/A'', district = ''N/A'' \<rparr>],
        isLoading = False, error = None, searchTerm = [],
        selectedSchool = Some \<lparr> school_id = (Finite 41, Finite (- 74), 0),
          name = ''Lincoln High School'',
          address = ''No Address Provided'', latitude = Finite 41, longitude = Finite (- 74),
          status = Defined, administrativeDesignation = ''N/A'', district = ''N/A'' \<rparr>,
        lastUpdated = Some 2, alerts = [] \<rparr>)))
     = [\<lparr> school_id = (Finite 41, Finite (- 74), 0), name = ''Lincoln High School'',
          address = ''No Address Provided'', latitude = Finite 41, longitude = Finite (- 74),
          status = Defined, administrativeDesignation = ''N/A'', district = ''N/A'' \<rparr>]"
proof -
  let ?env = "\<lparr> libraries = (\<lambda>libName t. True), googleMaps = (\<lambda>t. True),
             papa = PapaError ''Network Error'', fetchTicks = 3 \<rparr>"
  let ?b = "\<lparr> school_id = (Finite 41, Finite (- 74), 0), name = ''Lincoln High School'',
          address = ''No Address Provided'', latitude = Finite 41, longitude = Finite (- 74),
          status = Defined, administrativeDesignation = ''N/A'', district = ''N/A'' \<rparr>"
  let ?st = "\<lparr> schools = [?b], isLoading = False, error = None, searchTerm = [],
        selectedSchool = Some ?b, lastUpdated = Some 2, alerts = [] \<rparr>"
  have ready: "waitForLibrary libName (\<lambda>libName t. True) t0 = (t0 + 1, Inr ())" for libName t0
    unfolding waitForLibrary_def by (subst poll.simps) simp
  have failed: "awaited ?env 0
     = (5, [], Inl ''Could not fetch or parse CSV file from URL. Network Error'')"
    by (simp add: awaited_def ready fetchSchoolData_def)
  from failed_load_keeps_collection [OF failed, of ?st]
  have "schools (snd (snd (loadData ?env 0 ?st))) = [?b]"
    by (simp add: case_prod_unfold)
  with failed show ?thesis by (rule conjI)
qed

text \<open>
  C5 as stated fails: after a failed load (here the body of \<open>catch\<close> and \<open>finally\<close>
  on a fetch error) the collection and the selection are still the ones of before.
\<close>

theorem failed_load_counterexample:
  "schools (loadSettle 5 (Inl ''Could not fetch or parse CSV file from URL. Network Error'')
     (loadBegin \<lparr> schools = [\<lparr> school_id = (Finite 41, Finite (- 74), 0),
          name = ''Lincoln High School'',
          address = ''No Address Provided'', latitude = Finite 41, longitude = Finite (- 74),
          status = Defined, administrativeDesignation = ''N/A'', district = ''N/A'' \<rparr>],
        isLoading = False, error = None, searchTerm = [],
        selectedSchool = Some \<lparr> school_id = (Finite 41, Finite (- 74), 0),
          name = ''Lincoln High School'',
          address = ''No Address Provided'', latitude = Finite 41, longitude = Finite (- 74),
          status = Defined, administrativeDesignation = ''N/A'', district = ''N/A'' \<rparr>,
        lastUpdated = Some 2, alerts = [] \<rparr>)) \<noteq> [] \<and>
   selectedSchool (loadSettle 5 (Inl ''Could not fetch or parse CSV file from URL. Network Error'')
     (loadBegin \<lparr> schools = [\<lparr> school_id = (Finite 41, Finite (- 74), 0),
          name = ''Lincoln High School'',
          address = ''No Address Provided'', latitude = Finite 41, longitude = Finite (- 74),
          status = Defined, administrativeDesignation = ''N/A'', district = ''N/A'' \<rparr>],
        isLoading = False, error = None, searchTerm = [],
        selectedSchool = Some \<lparr> school_id = (Finite 41, Finite (- 74), 0),
          name = ''Lincoln High School'',
          address = ''No Address Provided'', latitude = Finite 41, longitude = Finite (- 74),
          status = Defined, administrativeDesignation = ''N/A'', district = ''N/A'' \<rparr>,
        lastUpdated = Some 2, alerts = [] \<rparr>)) \<noteq> None"
  by (simp add: loadSettle_def loadBegin_def)

subsection \<open>Loads that overlap\<close>

text \<open>
  C6, as amended. There is no load-generation counter: a load that settles with data
  writes it whatever has happened before, so of two overlapping loads the one that
  settles last determines the collection, even when it began first. Overlap is kept
  out at the user interface instead: over every run of the page's events at most one
  load is pending, the loading flag is on exactly while one is, and the refresh button
  is there only while none is.
\<close>

theorem last_settled_load_wins:
  "schools (runLoads (evs @ [Settle k now (Inr data)]) st) = data \<and>
   (reachable s \<longrightarrow>
      pending s \<le> 1 \<and> (isLoading (app s) \<longleftrightarrow> pending s = 1) \<and>
      (controlsRendered (app s) \<longrightarrow> pending s = 0))"
proof -
  have "schools (runLoads (evs @ [Settle k now (Inr data)]) st) = data"
    by (simp add: runLoads_append loadSettle_def)
  moreover have "pending s \<le> 1 \<and> (isLoading (app s) \<longleftrightarrow> pending s = 1) \<and>
      (controlsRendered (app s) \<longrightarrow> pending s = 0)" if "reachable s"
    using reachable_single_flight [OF that] by (auto simp: controlsRendered_def)
  ultimately show ?thesis by blast
qed

theorem last_settled_load_wins_witness:
  "reachable \<lparr> app = loadSettle 4 (Inr []) (loadBegin initialState), pending = 0 \<rparr> \<and>
   controlsRendered (loadSettle 4 (Inr []) (loadBegin initialState)) \<and>
   pending \<lparr> app = loadSettle 4 (Inr []) (loadBegin initialState), pending = 0 \<rparr> = 0 \<and>
   \<not> isLoading (loadSettle 4 (Inr []) (loadBegin initialState))"
proof -
  let ?s = "\<lparr> app = loadSettle 4 (Inr []) (loadBegin initialState), pending = 0 \<rparr>"
  have "reachable \<lparr> app = loadSettle 4 (Inr []) (app \<lparr> app = loadBegin initialState, pending = 1 \<rparr>),
                    pending = pending \<lparr> app = loadBegin initialState, pending = 1 \<rparr> - 1 \<rparr>"
    by (rule reachable.settle [OF reachable.mount]) simp
  then have r: "reachable ?s" by simp
  have c: "controlsRendered (loadSettle 4 (Inr []) (loadBegin initialState))"
    by (simp add: controlsRendered_def loadSettle_def loadBegin_def initialState_def)
  have "reachable ?s \<longrightarrow>
      pending ?s \<le> 1 \<and> (isLoading (app ?s) \<longleftrightarrow> pending ?s = 1) \<and>
      (controlsRendered (app ?s) \<longrightarrow> pending ?s = 0)"
    using last_settled_load_wins [of "[]" 0 0 "[]" initialState ?s] by (rule conjunct2)
  with r c show ?thesis by simp
qed

text \<open>
  C6 as stated fails: load 1 begins, load 2 begins, load 2 settles at tick 7, load 1
  settles at tick 9, and the collection is the one of load 1, the older of the two.
\<close>

theorem stale_load_overwrites_counterexample:
  "schools (runLoads
     [Begin 1, Begin 2,
      Settle 2 7 (Inr [\<lparr> school_id = (Finite 41, Finite (- 74), 0), name = ''Newer'',
          address = ''No Address Provided'', latitude = Finite 41, longitude = Finite (- 74),
          status = Defined, administrativeDesignation = ''N/A'', district = ''N/A'' \<rparr>]),
      Settle 1 9 (Inr [\<lparr> school_id = (Finite 40, Finite (- 73), 0), name = ''Older'',
          address = ''No Address Provided'', latitude = Finite 40, longitude = Finite (- 73),
          status = Pending, administrativeDesignation = ''N/A'', district = ''N/A'' \<rparr>])]
     initialState)
   = [\<lparr> school_id = (Finite 40, Finite (- 73), 0), name = ''Older'',
          address = ''No Address Provided'', latitude = Finite 40, longitude = Finite (- 73),
          status = Pending, administrativeDesignation = ''N/A'', district = ''N/A'' \<rparr>]"
  by (simp add: loadSettle_def)

subsection \<open>A library that never appears\<close>

text \<open>
  C7, as amended. A library that is never defined makes \<open>waitForLibrary\<close> reject at the
  51st firing of its 100 ms interval (5100 ms after that wait began) with a message
  that names the library. When it is \<open>google\<close>, the load ends at that tick with this
  message as its error, the map hint, the loading flag off and the error display
  rendered. When it is \<open>Papa\<close>, the load ends in an error as well, with the loading flag
  off and the error display rendered, but the wait for \<open>Papa\<close> begins only when the
  wait for \<open>google\<close> is over: the load ends no later than two such waits (102 firings)
  after it began. If the wait for \<open>google\<close> succeeded with \<open>google.maps\<close> defined, the
  error names \<open>Papa\<close> and comes 51 firings after that wait ended; if it succeeded
  without \<open>google.maps\<close>, the error is the one about the maps object, at once; if it
  was rejected, the error names \<open>google\<close>.
\<close>

theorem capability_timeout_ends_in_error:
  "((\<forall>t. \<not> libraries env libName t) \<longrightarrow>
      waitForLibrary libName (libraries env) t0
        = (t0 + maxAttempts + 1, Inl (libraryTimeout libName)) \<and>
      sublist libName (libraryTimeout libName)) \<and>
   checkIntervalMs * (maxAttempts + 1) = 5100 \<and>
   ((\<forall>t. \<not> libraries env ''google'' t) \<longrightarrow>
      (case loadData env t0 st of
         (t, ws, st') \<Rightarrow>
           t = t0 + maxAttempts + 1 \<and>
           error st' = Some \<lparr> message = libraryTimeout ''google'', details = MapKeyHint \<rparr> \<and>
           \<not> isLoading st' \<and>
           renderContent st' = ErrorDisplay (libraryTimeout ''google'') MapKeyHint)) \<and>
   ((\<forall>t. \<not> libraries env ''Papa'' t) \<longrightarrow>
      (case loadData env t0 st of
         (t, ws, st') \<Rightarrow>
           t \<le> t0 + 2 * (maxAttempts + 1) \<and> \<not> isLoading st' \<and>
           (\<exists>e. error st' = Some e \<and> renderContent st' = ErrorDisplay (message e) (details e)) \<and>
           (\<forall>t1. waitForLibrary ''google'' (libraries env) t0 = (t1, Inr ()) \<and> googleMaps env t1 \<longrightarrow>
              t = t1 + maxAttempts + 1 \<and> t1 \<le> t0 + maxAttempts + 1 \<and>
              error st' = Some \<lparr> message = libraryTimeout ''Papa'', details = ParserHint \<rparr>) \<and>
           (\<forall>t1. waitForLibrary ''google'' (libraries env) t0 = (t1, Inr ()) \<and> \<not> googleMaps env t1 \<longrightarrow>
              t = t1 \<and> t1 \<le> t0 + maxAttempts + 1 \<and>
              error st' = Some \<lparr> message =
                  ''Google Maps API script loaded, but maps object is not available.'',
                details = MapKeyHint \<rparr>) \<and>
           (\<forall>t1 msg. waitForLibrary ''google'' (libraries env) t0 = (t1, Inl msg) \<longrightarrow>
              t = t0 + maxAttempts + 1 \<and>
              error st' = Some \<lparr> message = libraryTimeout ''google'', details = MapKeyHint \<rparr>)))"
proof (intro conjI impI)
  assume "\<forall>t. \<not> libraries env libName t"
  then show "waitForLibrary libName (libraries env) t0
        = (t0 + maxAttempts + 1, Inl (libraryTimeout libName))"
    by (rule waitForLibrary_never)
  show "sublist libName (libraryTimeout libName)" by (rule timeout_names_library)
next
  show "checkIntervalMs * (maxAttempts + 1) = 5100"
    by (simp add: checkIntervalMs_def maxAttempts_def)
next
  assume "\<forall>t. \<not> libraries env ''google'' t"
  then have "awaited env t0 = (t0 + maxAttempts + 1, [], Inl (libraryTimeout ''google''))"
    by (simp add: awaited_def waitForLibrary_never)
  from loadData_failed [OF this, of st]
  show "case loadData env t0 st of
         (t, ws, st') \<Rightarrow>
           t = t0 + maxAttempts + 1 \<and>
           error st' = Some \<lparr> message = libraryTimeout ''google'', details = MapKeyHint \<rparr> \<and>
           \<not> isLoading st' \<and>
           renderContent st' = ErrorDisplay (libraryTimeout ''google'') MapKeyHint"
    by (simp add: errorDetails_google renderContent_failed)
next
  assume never: "\<forall>t. \<not> libraries env ''Papa'' t"
  let ?maps = "''Google Maps API script loaded, but maps object is not available.''"
  obtain t1 r where google: "waitForLibrary ''google'' (libraries env) t0 = (t1, r)"
    by (cases "waitForLibrary ''google'' (libraries env) t0")
  have papa: "waitForLibrary ''Papa'' (libraries env) t1
      = (t1 + maxAttempts + 1, Inl (libraryTimeout ''Papa''))"
    using never by (rule waitForLibrary_never)
  consider (timeout) msg where "r = Inl msg"
    | (nomaps) "r = Inr ()" "\<not> googleMaps env t1"
    | (maps) "r = Inr ()" "googleMaps env t1"
    by (cases r) auto
  then obtain t msg where failed: "awaited env t0 = (t, [], Inl msg)"
    and bound: "t \<le> t0 + 2 * (maxAttempts + 1)"
    and named: "r = Inr () \<and> googleMaps env t1
        \<longrightarrow> t = t1 + maxAttempts + 1 \<and> t1 \<le> t0 + maxAttempts + 1 \<and> msg = libraryTimeout ''Papa''"
    and unmapped: "r = Inr () \<and> \<not> googleMaps env t1
        \<longrightarrow> t = t1 \<and> t1 \<le> t0 + maxAttempts + 1 \<and> msg = ?maps"
    and late: "\<forall>m. r = Inl m \<longrightarrow> t = t0 + maxAttempts + 1 \<and> msg = libraryTimeout ''google''"
  proof cases
    case timeout
    with google waitForLibrary_rejected[of "''google''" "libraries env" t0 t1 msg]
      that[of t1 msg]
    show ?thesis by (simp add: awaited_def)
  next
    case nomaps
    with google waitForLibrary_resolved_bound[of "''google''" "libraries env" t0 t1 "()"]
      that[of t1 ?maps]
    show ?thesis by (simp add: awaited_def)
  next
    case maps
    with google papa waitForLibrary_resolved_bound[of "''google''" "libraries env" t0 t1 "()"]
      that[of "t1 + maxAttempts + 1" "libraryTimeout ''Papa''"]
    show ?thesis by (simp add: awaited_def)
  qed
  from loadData_failed [OF failed, of st] bound named unmapped late google
  show "case loadData env t0 st of
         (t, ws, st') \<Rightarrow>
           t \<le> t0 + 2 * (maxAttempts + 1) \<and> \<not> isLoading st' \<and>
           (\<exists>e. error st' = Some e \<and> renderContent st' = ErrorDisplay (message e) (details e)) \<and>
           (\<forall>t1. waitForLibrary ''google'' (libraries env) t0 = (t1, Inr ()) \<and> googleMaps env t1 \<longrightarrow>
              t = t1 + maxAttempts + 1 \<and> t1 \<le> t0 + maxAttempts + 1 \<and>
              error st' = Some \<lparr> message = libraryTimeout ''Papa'', details = ParserHint \<rparr>) \<and>
           (\<forall>t1. waitForLibrary ''google'' (libraries env) t0 = (t1, Inr ()) \<and> \<not> googleMaps env t1 \<longrightarrow>
              t = t1 \<and> t1 \<le> t0 + maxAttempts + 1 \<and>
              error st' = Some \<lparr> message = ?maps, details = MapKeyHint \<rparr>) \<and>
           (\<forall>t1 msg. waitForLibrary ''google'' (libraries env) t0 = (t1, Inl msg) \<longrightarrow>
              t = t0 + maxAttempts + 1 \<and>
              error st' = Some \<lparr> message = libraryTimeout ''google'', details = MapKeyHint \<rparr>)"
    by (auto simp: errorDetails_Papa errorDetails_google errorDetails_maps renderContent_failed)
qed

theorem capability_timeout_ends_in_error_witness:
  "fst (loadData \<lparr> libraries = (\<lambda>libName t. False), googleMaps = (\<lambda>t. False),
                   papa = PapaComplete [], fetchTicks = 0 \<rparr> 0 initialState) = 51 \<and>
   error (snd (snd (loadData \<lparr> libraries = (\<lambda>libName t. False), googleMaps = (\<lambda>t. False),
                   papa = PapaComplete [], fetchTicks = 0 \<rparr> 0 initialState)))
     = Some \<lparr> message = libraryTimeout ''google'', details = MapKeyHint \<rparr> \<and>
   \<not> isLoading (snd (snd (loadData \<lparr> libraries = (\<lambda>libName t. False), googleMaps = (\<lambda>t. False),
                   papa = PapaComplete [], fetchTicks = 0 \<rparr> 0 initialState))) \<and>
   renderContent (snd (snd (loadData \<lparr> libraries = (\<lambda>libName t. False), googleMaps = (\<lambda>t. False),
                   papa = PapaComplete [], fetchTicks = 0 \<rparr> 0 initialState)))
     = ErrorDisplay (libraryTimeout ''google'') MapKeyHint"
proof -
  let ?env = "\<lparr> libraries = (\<lambda>libName t. False), googleMaps = (\<lambda>t. False),
                papa = PapaComplete [], fetchTicks = 0 \<rparr>"
  have never: "\<forall>t. \<not> libraries ?env ''google'' t" by simp
  have "(\<forall>t. \<not> libraries ?env ''google'' t) \<longrightarrow>
      (case loadData ?env 0 initialState of
         (t, ws, st') \<Rightarrow>
           t = 0 + maxAttempts + 1 \<and>
           error st' = Some \<lparr> message = libraryTimeout ''google'', details = MapKeyHint \<rparr> \<and>
           \<not> isLoading st' \<and>
           renderContent st' = ErrorDisplay (libraryTimeout ''google'') MapKeyHint)"
    using capability_timeout_ends_in_error [of ?env "''google''" 0 initialState]
    by (elim conjE)
  with never show ?thesis
    by (simp add: case_prod_unfold maxAttempts_def)
qed


text \<open>
  C7 as stated fails for the parser: with \<open>google\<close> defined from tick 51 on and \<open>Papa\<close>
  never, the load ends at tick 102, 10.2 s after it began, which is not within the some
  5 s of one wait.
\<close>

theorem late_map_library_counterexample:
  "fst (loadData \<lparr> libraries = appearsFrom [(''google'', 51)], googleMaps = (\<le>) 0,
                   papa = PapaComplete [], fetchTicks = 0 \<rparr> 0 initialState) = 102 \<and>
   checkIntervalMs * 102 = 10200 \<and>
   error (snd (snd (loadData \<lparr> libraries = appearsFrom [(''google'', 51)],
                   googleMaps = (\<le>) 0, papa = PapaComplete [], fetchTicks = 0 \<rparr> 0 initialState)))
     = Some \<lparr> message = libraryTimeout ''Papa'', details = ParserHint \<rparr>"
proof -
  let ?w = "appearsFrom [(''google'', 51)]"
  let ?env = "\<lparr> libraries = ?w, googleMaps = (\<le>) 0, papa = PapaComplete [], fetchTicks = 0 \<rparr>"
  have google: "waitForLibrary ''google'' ?w 0 = (51, Inr ())"
    unfolding waitForLibrary_def
    by (rule poll_first_defined) (simp_all add: appearsFrom_def maxAttempts_def)
  have "\<forall>t. \<not> ?w ''Papa'' t" by (simp add: appearsFrom_def)
  then have papa: "waitForLibrary ''Papa'' ?w 51 = (102, Inl (libraryTimeout ''Papa''))"
    using waitForLibrary_never[of ?w "''Papa''" 51] by (simp add: maxAttempts_def)
  have "awaited ?env 0 = (102, [], Inl (libraryTimeout ''Papa''))"
    by (simp add: awaited_def google papa)
  from loadData_failed [OF this, of initialState] show ?thesis
    by (simp add: checkIntervalMs_def errorDetails_Papa)
qed


section \<open>Properties of the map adapter\<close>

subsection \<open>Auxiliary facts\<close>

lemma mapSet_fresh: "k \<notin> fst ` set ps \<Longrightarrow> mapSet k v ps = ps @ [(k, v)]"
  by (induction ps) auto

lemma foldl_placeMarker_kept:
  "mapCreated (foldl placeMarker m xs) = mapCreated m"
  "center (foldl placeMarker m xs) = center m"
  "zoom (foldl placeMarker m xs) = zoom m"
  "infoWindow (foldl placeMarker m xs) = infoWindow m"
  "nextRef (foldl placeMarker m xs) = nextRef m + length xs"
  by (induction xs arbitrary: m) (simp_all add: placeMarker_def Let_def)

lemma foldl_placeMarker_onMap:
  "onMap (foldl placeMarker m xs)
     = onMap m @ map (\<lambda>k. newMarker (nextRef m + k) (xs ! k)) [0..<length xs]"
proof (induction xs arbitrary: m)
  case Nil
  show ?case by simp
next
  case (Cons x xs)
  have "map (\<lambda>k. newMarker (nextRef m + k) ((x # xs) ! k)) [0..<length (x # xs)]
      = newMarker (nextRef m) x # map (\<lambda>k. newMarker (nextRef m + 1 + k) (xs ! k)) [0..<length xs]"
    by (simp add: map_upt_Suc del: upt_Suc)
  then show ?case
    by (simp add: Cons.IH) (simp add: placeMarker_def Let_def)
qed

lemma foldl_placeMarker_markersRef:
  assumes "distinct (map school_id xs)"
    and "set (map school_id xs) \<inter> fst ` set (markersRef m) = {}"
  shows "markersRef (foldl placeMarker m xs)
     = markersRef m
         @ map (\<lambda>k. (school_id (xs ! k), newMarker (nextRef m + k) (xs ! k))) [0..<length xs]"
  using assms
proof (induction xs arbitrary: m)
  case Nil
  show ?case by simp
next
  case (Cons x xs)
  let ?m = "placeMarker m x"
  have fresh: "school_id x \<notin> fst ` set (markersRef m)" using Cons.prems(2) by auto
  then have ref: "markersRef ?m = markersRef m @ [(school_id x, newMarker (nextRef m) x)]"
    by (simp add: placeMarker_def Let_def mapSet_fresh)
  have counter: "nextRef ?m = nextRef m + 1" by (simp add: placeMarker_def Let_def)
  have "distinct (map school_id xs)" using Cons.prems(1) by simp
  moreover have "set (map school_id xs) \<inter> fst ` set (markersRef ?m) = {}"
    using Cons.prems ref by auto
  ultimately have "markersRef (foldl placeMarker ?m xs)
     = markersRef ?m
         @ map (\<lambda>k. (school_id (xs ! k), newMarker (nextRef ?m + k) (xs ! k))) [0..<length xs]"
    by (rule Cons.IH)
  moreover have "map (\<lambda>k. (school_id ((x # xs) ! k), newMarker (nextRef m + k) ((x # xs) ! k)))
        [0..<length (x # xs)]
      = (school_id x, newMarker (nextRef m) x)
          # map (\<lambda>k. (school_id (xs ! k), newMarker (nextRef m + 1 + k) (xs ! k))) [0..<length xs]"
    by (simp add: map_upt_Suc del: upt_Suc)
  ultimately show ?case by (simp add: ref counter)
qed

lemma clearMarkers_registered:
  "markersRegistered m \<Longrightarrow> onMap (clearMarkers m) = []"
  by (auto simp: markersRegistered_def clearMarkers_def filter_empty_conv)

lemma clearMarkers_kept:
  "markersRef (clearMarkers m) = []" "nextRef (clearMarkers m) = nextRef m"
  "mapCreated (clearMarkers m) = mapCreated m"
  by (simp_all add: clearMarkers_def)

lemma rowIndex_mapRows:
  "s \<in> set (keepSchools (mapRows rows k)) \<Longrightarrow> k \<le> rowIndex s"
proof (induction rows arbitrary: k)
  case Nil
  then show ?case by simp
next
  case (Cons r rs)
  show ?case
  proof (cases "mapRow r k")
    case (Skipped w)
    with Cons.prems Cons.IH[of "k + 1"] show ?thesis by simp
  next
    case (Mapped s')
    then have "rowIndex s' = k" by (rule mapRow_Mapped(6))
    with Mapped Cons.prems Cons.IH[of "k + 1"] show ?thesis by auto
  qed
qed

lemma distinct_rowIndex_mapRows: "distinct (map rowIndex (keepSchools (mapRows rows k)))"
proof (induction rows arbitrary: k)
  case Nil
  show ?case by simp
next
  case (Cons r rs)
  show ?case
  proof (cases "mapRow r k")
    case (Skipped w)
    with Cons.IH[of "k + 1"] show ?thesis by simp
  next
    case (Mapped s)
    then have "rowIndex s = k" by (rule mapRow_Mapped(6))
    moreover have "\<forall>s' \<in> set (keepSchools (mapRows rs (k + 1))). k + 1 \<le> rowIndex s'"
      using rowIndex_mapRows by blast
    ultimately have "rowIndex s \<notin> rowIndex ` set (keepSchools (mapRows rs (k + 1)))"
      by auto
    with Mapped Cons.IH[of "k + 1"] show ?thesis by simp
  qed
qed

lemma distinct_parsedData_ids: "distinct (map school_id (parsedData rows))"
proof -
  have "distinct (map rowIndex (parsedData rows))"
    using distinct_rowIndex_mapRows[of rows 0] by (simp add: parsedData_def)
  then have "distinct (parsedData rows)" and inj: "inj_on rowIndex (set (parsedData rows))"
    by (simp_all add: distinct_map)
  moreover have "inj_on school_id (set (parsedData rows))"
    using inj by (auto simp: inj_on_def rowIndex_def)
  ultimately show ?thesis by (simp add: distinct_map)
qed





subsection \<open>Redrawing the markers\<close>

text \<open>
  C8, as amended. Whenever the map exists and the collection handed to the adapter is
  replaced by a non-empty one whose identifiers are distinct (those of a collection from
  \<open>fetchSchoolData\<close> always are), and every marker on the map is in the registry (which
  the effect itself re-establishes), then afterwards the markers on the map are exactly
  one new marker per School of the collection, in its order, the registry maps each
  identifier to its marker, and none of the previous markers is on the map any more.
  When the new collection is empty the effect does nothing: map and registry stay as
  they were.
\<close>

theorem markers_redrawn_for_nonempty_collection:
  assumes "mapCreated m" and "schoolList \<noteq> []" and "distinct (map school_id schoolList)"
    and "markersRegistered m"
  shows "onMap (markersEffect schoolList m)
           = map (\<lambda>k. newMarker (nextRef m + k) (schoolList ! k)) [0..<length schoolList] \<and>
         markersRef (markersEffect schoolList m)
           = map (\<lambda>k. (school_id (schoolList ! k), newMarker (nextRef m + k) (schoolList ! k)))
               [0..<length schoolList] \<and>
         (\<forall>old \<in> set (onMap m). ref old \<notin> ref ` set (onMap (markersEffect schoolList m))) \<and>
         markersRegistered (markersEffect schoolList m) \<and>
         markersEffect [] m = m \<and>
         distinct (map school_id (parsedData rows))"
proof -
  let ?m' = "markersEffect schoolList m"
  have eff: "?m' = foldl placeMarker (clearMarkers m) schoolList"
    using assms(1,2) by (simp add: markersEffect_def)
  have onMap: "onMap ?m'
      = map (\<lambda>k. newMarker (nextRef m + k) (schoolList ! k)) [0..<length schoolList]"
    by (simp add: eff foldl_placeMarker_onMap clearMarkers_registered [OF assms(4)]
        clearMarkers_kept)
  have registry: "markersRef ?m'
      = map (\<lambda>k. (school_id (schoolList ! k), newMarker (nextRef m + k) (schoolList ! k)))
          [0..<length schoolList]"
    using foldl_placeMarker_markersRef [of schoolList "clearMarkers m"] assms(3)
    by (simp add: eff clearMarkers_kept)
  have counter: "nextRef ?m' = nextRef m + length schoolList"
    by (simp add: eff foldl_placeMarker_kept clearMarkers_kept)
  have removed: "\<forall>old \<in> set (onMap m). ref old \<notin> ref ` set (onMap ?m')"
    using assms(4) by (auto simp: onMap markersRegistered_def newMarker_def)
  have registered: "markersRegistered ?m'"
    unfolding markersRegistered_def onMap registry counter
    by (auto simp: newMarker_def image_iff)
  have empty: "markersEffect [] m = m" by (simp add: markersEffect_def)
  from onMap registry removed registered empty distinct_parsedData_ids show ?thesis by blast
qed

theorem markers_redrawn_for_nonempty_collection_witness:
  "onMap (markersEffect
      [\<lparr> school_id = (Finite 40, Finite (- 73), 0), name = ''Washington Academy'',
         address = ''No Address Provided'', latitude = Finite 40, longitude = Finite (- 73),
         status = Pending, administrativeDesignation = ''N/A'', district = ''N/A'' \<rparr>]
      (createMap unmounted))
     = [newMarker 0 \<lparr> school_id = (Finite 40, Finite (- 73), 0), name = ''Washington Academy'',
         address = ''No Address Provided'', latitude = Finite 40, longitude = Finite (- 73),
         status = Pending, administrativeDesignation = ''N/A'', district = ''N/A'' \<rparr>] \<and>
   onMap (markersEffect
      [\<lparr> school_id = (Finite 41, Finite (- 74), 0), name = ''Lincoln High School'',
         address = ''No Address Provided'', latitude = Finite 41, longitude = Finite (- 74),
         status = Defined, administrativeDesignation = ''N/A'', district = ''N/A'' \<rparr>]
      (markersEffect
        [\<lparr> school_id = (Finite 40, Finite (- 73), 0), name = ''Washington Academy'',
           address = ''No Address Provided'', latitude = Finite 40, longitude = Finite (- 73),
           status = Pending, administrativeDesignation = ''N/A'', district = ''N/A'' \<rparr>]
        (createMap unmounted)))
     = [newMarker 1 \<lparr> school_id = (Finite 41, Finite (- 74), 0), name = ''Lincoln High School'',
         address = ''No Address Provided'', latitude = Finite 41, longitude = Finite (- 74),
         status = Defined, administrativeDesignation = ''N/A'', district = ''N/A'' \<rparr>]"
proof -
  let ?a = "\<lparr> school_id = (Finite 40, Finite (- 73), 0), name = ''Washington Academy'',
         address = ''No Address Provided'', latitude = Finite 40, longitude = Finite (- 73),
         status = Pending, administrativeDesignation = ''N/A'', district = ''N/A'' \<rparr>"
  let ?b = "\<lparr> school_id = (Finite 41, Finite (- 74), 0), name = ''Lincoln High School'',
         address = ''No Address Provided'', latitude = Finite 41, longitude = Finite (- 74),
         status = Defined, administrativeDesignation = ''N/A'', district = ''N/A'' \<rparr>"
  let ?m0 = "createMap unmounted"
  let ?m1 = "markersEffect [?a] ?m0"
  have m0: "mapCreated ?m0" "markersRegistered ?m0" "nextRef ?m0 = 0"
    by (simp_all add: createMap_def unmounted_def markersRegistered_def)
  have first: "onMap ?m1 = [newMarker 0 ?a] \<and> markersRegistered ?m1"
    using markers_redrawn_for_nonempty_collection [of ?m0 "[?a]"] m0 by simp
  have m1: "mapCreated ?m1" "nextRef ?m1 = 1"
    by (simp_all add: markersEffect_def clearMarkers_def placeMarker_def createMap_def
        unmounted_def Let_def)
  have "onMap (markersEffect [?b] ?m1) = [newMarker 1 ?b]"
    using markers_redrawn_for_nonempty_collection [of ?m1 "[?b]"] first m1 by simp
  with first show ?thesis by simp
qed

text \<open>
  C8 as stated fails: after a collection of one School is replaced by the empty
  collection, the marker of that School is still on the map and in the registry.
\<close>

theorem empty_collection_keeps_markers_counterexample:
  "onMap (markersEffect []
      (markersEffect
        [\<lparr> school_id = (Finite 40, Finite (- 73), 0), name = ''Washington Academy'',
           address = ''No Address Provided'', latitude = Finite 40, longitude = Finite (- 73),
           status = Pending, administrativeDesignation = ''N/A'', district = ''N/A'' \<rparr>]
        (createMap unmounted)))
     = [newMarker 0 \<lparr> school_id = (Finite 40, Finite (- 73), 0), name = ''Washington Academy'',
         address = ''No Address Provided'', latitude = Finite 40, longitude = Finite (- 73),
         status = Pending, administrativeDesignation = ''N/A'', district = ''N/A'' \<rparr>] \<and>
   markersRef (markersEffect []
      (markersEffect
        [\<lparr> school_id = (Finite 40, Finite (- 73), 0), name = ''Washington Academy'',
           address = ''No Address Provided'', latitude = Finite 40, longitude = Finite (- 73),
           status = Pending, administrativeDesignation = ''N/A'', district = ''N/A'' \<rparr>]
        (createMap unmounted))) \<noteq> []"
  by (simp add: markersEffect_def clearMarkers_def placeMarker_def createMap_def unmounted_def
      Let_def)


subsection \<open>Selecting a School\<close>



end
